theory Spec2Isabelle
  imports Complex_Main
begin

section \<open>Python values, errors and numpy arrays\<close>

text \<open>
  The module \<^verbatim>\<open>fluctus/interfaces.py\<close> computes on Python and numpy floats. The
  embedding reads them as exact real numbers: rounding, overflow of finite values and
  NaN are outside the model. Where the source depends on an infinite or undefined float
  (the default \<^verbatim>\<open>baseline_end = np.inf\<close> of \<^verbatim>\<open>psc\<close>), the argument has the type
  \<open>pyfloat\<close>, which has those values. An exception of the source is a value of
  \<open>py_error\<close>.
\<close>

datatype py_error = IndexError | TypeError | ZeroDivisionError | OverflowError | ValueError

datatype pyfloat = Num real | PosInf | NegInf | NaN

type_synonym matrix = "real list list"

text \<open>\<^verbatim>\<open>int(x)\<close> on a float: truncation toward zero; infinities and NaN raise.\<close>

definition trunc_toward_zero :: "real \<Rightarrow> int" where
  "trunc_toward_zero x = (if 0 \<le> x then \<lfloor>x\<rfloor> else \<lceil>x\<rceil>)"

definition py_int :: "pyfloat \<Rightarrow> py_error + int" where
  "py_int x =
     (case x of
        Num v \<Rightarrow> Inr (trunc_toward_zero v)
      | PosInf \<Rightarrow> Inl OverflowError
      | NegInf \<Rightarrow> Inl OverflowError
      | NaN \<Rightarrow> Inl ValueError)"

text \<open>\<^verbatim>\<open>x / y\<close> on Python floats, the divisor finite: a zero divisor raises.\<close>

definition py_truediv :: "pyfloat \<Rightarrow> real \<Rightarrow> py_error + pyfloat" where
  "py_truediv x y =
     (if y = 0 then Inl ZeroDivisionError
      else
        case x of
          Num v \<Rightarrow> Inr (Num (v / y))
        | PosInf \<Rightarrow> Inr (if 0 < y then PosInf else NegInf)
        | NegInf \<Rightarrow> Inr (if 0 < y then NegInf else PosInf)
        | NaN \<Rightarrow> Inr NaN)"

text \<open>
  \<^verbatim>\<open>xs[start:stop]\<close> with integer bounds: a negative bound counts from the end, and
  both are clipped to the length.
\<close>

definition py_slice :: "'a list \<Rightarrow> int \<Rightarrow> int \<Rightarrow> 'a list" where
  "py_slice xs start stop =
     (let n = int (length xs);
          clip = (\<lambda>i. if i < 0 then max 0 (i + n) else min i n);
          b = clip start;
          e = clip stop
      in take (nat (e - b)) (drop (nat b) xs))"

text \<open>\<^verbatim>\<open>xs[start:]\<close> and \<^verbatim>\<open>xs[:stop]\<close>.\<close>

definition py_slice_from :: "'a list \<Rightarrow> int \<Rightarrow> 'a list" where
  "py_slice_from xs start = py_slice xs start (int (length xs))"

definition py_slice_to :: "'a list \<Rightarrow> int \<Rightarrow> 'a list" where
  "py_slice_to xs stop = py_slice xs 0 stop"

text \<open>\<^verbatim>\<open>np.mean\<close> of a vector (numpy gives NaN for an empty one; here it is \<open>0\<close>).\<close>

definition np_mean :: "real list \<Rightarrow> real" where
  "np_mean xs = sum_list xs / real (length xs)"

text \<open>
  \<^verbatim>\<open>X.mean(0)\<close>: the mean of every column. A matrix is the list of its rows, all of one
  length; for a matrix with no row the model returns the empty vector, where numpy
  returns one NaN per column.
\<close>

definition mean0 :: "matrix \<Rightarrow> real list" where
  "mean0 X = (case X of [] \<Rightarrow> [] | r # _ \<Rightarrow> map (\<lambda>j. np_mean (map (\<lambda>row. row ! j) X)) [0..<length r])"

text \<open>
  \<^verbatim>\<open>X += v\<close> for a matrix and a vector: the vector is added to every row; a vector of
  length one is broadcast; any other mismatch of the shapes raises \<^verbatim>\<open>ValueError\<close>.
\<close>

definition iadd_rows :: "matrix \<Rightarrow> real list \<Rightarrow> py_error + matrix" where
  "iadd_rows X v =
     (if list_all (\<lambda>row. length row = length v) X then Inr (map (\<lambda>row. map2 (+) row v) X)
      else if length v = 1 then Inr (map (map (\<lambda>x. x + hd v)) X)
      else Inl ValueError)"

text \<open>\<^verbatim>\<open>np.roll(xs, k)\<close>: the circular shift that moves the entry at \<open>i\<close> to \<open>i + k\<close>.\<close>

definition np_roll :: "'a list \<Rightarrow> int \<Rightarrow> 'a list" where
  "np_roll xs k = map (\<lambda>i. xs ! nat ((int i - k) mod int (length xs))) [0..<length xs]"

text \<open>
  \<^verbatim>\<open>np.argmax\<close> of a vector: the index of the first occurrence of the maximum. numpy
  raises on an empty vector; \<open>find_delay\<close> below tests for that case before it calls
  \<open>argmax\<close>.
\<close>

fun argmax_from :: "real list \<Rightarrow> nat \<Rightarrow> nat \<Rightarrow> real \<Rightarrow> nat" where
  "argmax_from [] i best_i best = best_i"
| "argmax_from (x # xs) i best_i best =
     (if best < x then argmax_from xs (Suc i) i x else argmax_from xs (Suc i) best_i best)"

definition argmax :: "real list \<Rightarrow> nat" where
  "argmax xs = (case xs of [] \<Rightarrow> 0 | x # rest \<Rightarrow> argmax_from rest 1 0 x)"

text \<open>\<^verbatim>\<open>np.cumsum\<close>.\<close>

fun cumsum_from :: "real \<Rightarrow> real list \<Rightarrow> real list" where
  "cumsum_from acc [] = []"
| "cumsum_from acc (x # xs) = (acc + x) # cumsum_from (acc + x) xs"

definition np_cumsum :: "real list \<Rightarrow> real list" where
  "np_cumsum xs = cumsum_from 0 xs"

section \<open>Helpers: get_ntrials and get_offset\<close>

text \<open>
  \<^verbatim>\<open>get_ntrials\<close>: \<^verbatim>\<open>source_grid_[-1]\<close> raises \<^verbatim>\<open>IndexError\<close> on an empty grid;
  \<^verbatim>\<open>divmod\<close> raises \<^verbatim>\<open>TypeError\<close> on the period \<^verbatim>\<open>None\<close> and
  \<^verbatim>\<open>ZeroDivisionError\<close> on the period zero; its quotient is the floor.
\<close>

definition get_ntrials :: "real \<Rightarrow> real option \<Rightarrow> real \<Rightarrow> nat \<Rightarrow> py_error + int" where
  "get_ntrials start_offset period tr nvols =
     (let source_grid = map (\<lambda>x. real x * tr) [0..<nvols] in
      if source_grid = [] then Inl IndexError
      else
        let total_time = last source_grid in
        case period of
          None \<Rightarrow> Inl TypeError
        | Some p \<Rightarrow>
            if p = 0 then Inl ZeroDivisionError
            else Inr \<lfloor>(total_time - start_offset) / p\<rfloor>)"

text \<open>
  \<^verbatim>\<open>get_offset\<close>: the \<^verbatim>\<open>while\<close> loop has no bound on its iterations, so it is a
  partial function: \<open>None\<close> is the call that never returns. The source has no
  \<^verbatim>\<open>raise\<close> here, so there is no error value in the result.
\<close>

partial_function (option) get_offset_loop :: "real \<Rightarrow> real \<Rightarrow> real \<Rightarrow> real option" where
  "get_offset_loop stimulus_offset period offset =
     (if offset \<le> stimulus_offset + 39999 / 1000
      then get_offset_loop stimulus_offset period (offset + period)
      else Some offset)"

definition get_offset :: "real \<Rightarrow> real option \<Rightarrow> bool \<Rightarrow> real option" where
  "get_offset stimulus_offset period discard_transients =
     (case period of
        Some p \<Rightarrow>
          if stimulus_offset < 40 \<and> discard_transients
          then get_offset_loop stimulus_offset p stimulus_offset
          else Some stimulus_offset
      | None \<Rightarrow> Some stimulus_offset)"

section \<open>Delay estimation: correlate and find_delay\<close>

text \<open>
  \<^verbatim>\<open>correlate(a, b)\<close> as \<^verbatim>\<open>find_delay\<close> calls it: \<open>a\<close> is two-dimensional (one row
  per channel), \<open>b\<close> is a vector, and the result, squeezed, has one entry per row of
  \<open>a\<close> (numpy squeezes the result for a single channel further, to a scalar). A zero
  denominator gives NaN in numpy and \<open>0\<close> here; it is zero for all shifts of the
  reference or for none, so the entry \<open>argmax\<close> picks is the same.
\<close>

definition center :: "real list \<Rightarrow> real list" where
  "center xs = map (\<lambda>x. x - np_mean xs) xs"

definition sum_squares :: "real list \<Rightarrow> real" where
  "sum_squares xs = sum_list (map (\<lambda>x. x\<^sup>2) xs)"

definition np_dot :: "real list \<Rightarrow> real list \<Rightarrow> real" where
  "np_dot xs ys = sum_list (map2 (*) xs ys)"

definition correlate :: "matrix \<Rightarrow> real list \<Rightarrow> real list" where
  "correlate a b =
     (let a_centered = map center a;
          b_centered = center b;
          a_sos = map sum_squares a_centered;
          b_sos = sum_squares b_centered;
          norm_factors = map (\<lambda>s. sqrt (s * b_sos)) a_sos
      in map2 (\<lambda>row nf. np_dot row b_centered / nf) a_centered norm_factors)"

text \<open>
  sklearn's \<^verbatim>\<open>StandardScaler().fit_transform\<close>: every column minus its mean, divided
  by its (population) standard deviation, a zero deviation replaced by one.
\<close>

definition standardize :: "real list \<Rightarrow> real list" where
  "standardize xs =
     (let m = np_mean xs;
          sd = sqrt (np_mean (map (\<lambda>x. (x - m)\<^sup>2) xs))
      in map (\<lambda>x. (x - m) / (if sd = 0 then 1 else sd)) xs)"

definition StandardScaler_fit_transform :: "matrix \<Rightarrow> matrix" where
  "StandardScaler_fit_transform X = transpose (map standardize (transpose X))"

definition scale :: "real list \<Rightarrow> real list" where
  "scale x = standardize x"

text \<open>
  \<^verbatim>\<open>find_delay\<close>. Every failure of the source on these inputs is a \<^verbatim>\<open>ValueError\<close>:
  \<^verbatim>\<open>StandardScaler\<close> on an array with no row or no column, \<^verbatim>\<open>np.argmax\<close> on the
  empty list of shifts, and \<^verbatim>\<open>np.dot\<close> on a reference whose length is not the number
  of samples. The result has one delay per channel.
\<close>

definition find_delay ::
  "matrix \<Rightarrow> real list \<Rightarrow> int \<Rightarrow> real \<Rightarrow> bool \<Rightarrow> bool \<Rightarrow> py_error + real list" where
  "find_delay arr reference maxshift tr scaleref rect_data =
     (if arr = [] \<or> hd arr = [] then Inl ValueError
      else if scaleref \<and> reference = [] then Inl ValueError
      else
        let a_scaled = StandardScaler_fit_transform arr;
            a_scaled = (if rect_data
                        then map (map (\<lambda>x. x * (if 0 < x then 1 else 0))) a_scaled
                        else a_scaled);
            b_scaled = (if \<not> scaleref then reference else scale reference);
            shifts = [- maxshift..maxshift - 1]
        in
          if shifts = [] then Inl ValueError
          else if length reference \<noteq> length arr then Inl ValueError
          else
            let corrs = map (\<lambda>x. correlate (transpose a_scaled) (np_roll b_scaled (- x))) shifts;
                delay = map (\<lambda>c. shifts ! argmax (map (\<lambda>corr. corr ! c) corrs))
                            [0..<length (hd arr)]
            in Inr (map (\<lambda>d. - (real_of_int d * tr)) delay))"

text \<open>
  The parts of \<open>find_delay\<close> by name, for the statements about it: the signal and the
  reference as they are correlated, the correlation of channel \<open>c\<close> with the reference
  rolled by \<open>- s\<close>, and the shift \<open>find_delay\<close> picks for a channel.
\<close>

definition scaled_signal :: "matrix \<Rightarrow> bool \<Rightarrow> matrix" where
  "scaled_signal arr rect_data =
     (if rect_data
      then map (map (\<lambda>x. x * (if 0 < x then 1 else 0))) (StandardScaler_fit_transform arr)
      else StandardScaler_fit_transform arr)"

definition scaled_reference :: "real list \<Rightarrow> bool \<Rightarrow> real list" where
  "scaled_reference reference scaleref = (if \<not> scaleref then reference else scale reference)"

definition shift_correlation :: "matrix \<Rightarrow> real list \<Rightarrow> nat \<Rightarrow> int \<Rightarrow> real" where
  "shift_correlation a b c s = correlate (transpose a) (np_roll b (- s)) ! c"

definition best_shift :: "matrix \<Rightarrow> real list \<Rightarrow> int \<Rightarrow> nat \<Rightarrow> int" where
  "best_shift a b maxshift c =
     [- maxshift..maxshift - 1] !
       argmax (map (shift_correlation a b c) [- maxshift..maxshift - 1])"

section \<open>Quadrature demodulation: moving_average and make_traces\<close>

text \<open>
  \<^verbatim>\<open>moving_average(a, n)\<close>. The assignment \<^verbatim>\<open>ret[n:] = ret[n:] - ret[:-n]\<close> raises
  \<^verbatim>\<open>ValueError\<close> when the two slices differ in length (which is the case
  \<^verbatim>\<open>n = 0\<close> on a non-empty array).
\<close>

definition moving_average :: "real list \<Rightarrow> int \<Rightarrow> py_error + real list" where
  "moving_average a n =
     (let ret = np_cumsum a;
          hi = py_slice_from ret n;
          lo = py_slice_to ret (- n)
      in
        if length hi \<noteq> length lo then Inl ValueError
        else
          let ret = py_slice_to ret n @ map2 (-) hi lo
          in Inr (map (\<lambda>x. x / real_of_int n) (py_slice_from ret (n - 1))))"

text \<open>
  \<^verbatim>\<open>make_traces\<close> for one channel (a vector of samples, as
  \<^verbatim>\<open>confidence_and_estimates\<close> calls it). scipy's filter design \<^verbatim>\<open>butter\<close> and its
  zero-phase filter \<^verbatim>\<open>sosfiltfilt\<close> are library code: they are parameters of the
  model, \<open>butter order Wn fs\<close> and \<open>sosfiltfilt sos x\<close>, each free to raise.
\<close>

definition make_traces ::
  "(nat \<Rightarrow> real \<Rightarrow> real \<Rightarrow> py_error + 'sos) \<Rightarrow> ('sos \<Rightarrow> real list \<Rightarrow> py_error + real list) \<Rightarrow>
   real list \<Rightarrow> real \<Rightarrow> real \<Rightarrow> real \<Rightarrow> int \<Rightarrow> py_error + real list \<times> real list" where
  "make_traces butter sosfiltfilt signals frequency tr offset window =
     (if tr = 0 then Inl ZeroDivisionError
      else
        case butter 4 (frequency / 2) (1 / tr) of
          Inl e \<Rightarrow> Inl e
        | Inr sos \<Rightarrow>
            let t = map (\<lambda>x. real x * tr) [0..<length signals];
                s = map (\<lambda>t. sin (2 * pi * frequency * (t - offset + tr / 2))) t;
                c = map (\<lambda>t. cos (2 * pi * frequency * (t - offset + tr / 2))) t;
                multiplier_s = map2 (*) signals s;
                multiplier_c = map2 (*) signals c
            in
              case sosfiltfilt sos multiplier_s of
                Inl e \<Rightarrow> Inl e
              | Inr filtered_s \<Rightarrow>
                  (case moving_average filtered_s window of
                     Inl e \<Rightarrow> Inl e
                   | Inr averaged_s \<Rightarrow>
                       (case sosfiltfilt sos multiplier_c of
                          Inl e \<Rightarrow> Inl e
                        | Inr filtered_c \<Rightarrow>
                            (case moving_average filtered_c window of
                               Inl e \<Rightarrow> Inl e
                             | Inr averaged_c \<Rightarrow>
                                 Inr (py_slice averaged_s window (- window),
                                      py_slice averaged_c window (- window))))))"

text \<open>
  The order of operations as the specification words it, for comparison with
  \<open>make_traces\<close>: the signal is filtered first, the filtered signal is multiplied by
  the two reference waveforms, and each product is averaged and trimmed.
\<close>

definition make_traces_filter_first ::
  "(nat \<Rightarrow> real \<Rightarrow> real \<Rightarrow> py_error + 'sos) \<Rightarrow> ('sos \<Rightarrow> real list \<Rightarrow> py_error + real list) \<Rightarrow>
   real list \<Rightarrow> real \<Rightarrow> real \<Rightarrow> real \<Rightarrow> int \<Rightarrow> py_error + real list \<times> real list" where
  "make_traces_filter_first butter sosfiltfilt signals frequency tr offset window =
     (if tr = 0 then Inl ZeroDivisionError
      else
        case butter 4 (frequency / 2) (1 / tr) of
          Inl e \<Rightarrow> Inl e
        | Inr sos \<Rightarrow>
            (case sosfiltfilt sos signals of
               Inl e \<Rightarrow> Inl e
             | Inr filtered \<Rightarrow>
                 let t = map (\<lambda>x. real x * tr) [0..<length signals];
                     s = map (\<lambda>t. sin (2 * pi * frequency * (t - offset + tr / 2))) t;
                     c = map (\<lambda>t. cos (2 * pi * frequency * (t - offset + tr / 2))) t
                 in
                   case moving_average (map2 (*) filtered s) window of
                     Inl e \<Rightarrow> Inl e
                   | Inr averaged_s \<Rightarrow>
                       (case moving_average (map2 (*) filtered c) window of
                          Inl e \<Rightarrow> Inl e
                        | Inr averaged_c \<Rightarrow>
                            Inr (py_slice averaged_s window (- window),
                                 py_slice averaged_c window (- window)))))"

text \<open>
  The parts of \<open>make_traces\<close> by name, for the statements about it: the two reference
  waveforms on \<open>n\<close> samples, and the means of the windows of \<open>w\<close> samples of a
  vector that start at the indices \<open>w\<close>, \<open>w + 1\<close>, ... and end at least \<open>w\<close>
  samples before its end.
\<close>

definition sine_reference :: "nat \<Rightarrow> real \<Rightarrow> real \<Rightarrow> real \<Rightarrow> real list" where
  "sine_reference n frequency tr offset =
     map (\<lambda>x. sin (2 * pi * frequency * (real x * tr - offset + tr / 2))) [0..<n]"

definition cosine_reference :: "nat \<Rightarrow> real \<Rightarrow> real \<Rightarrow> real \<Rightarrow> real list" where
  "cosine_reference n frequency tr offset =
     map (\<lambda>x. cos (2 * pi * frequency * (real x * tr - offset + tr / 2))) [0..<n]"

definition window_means :: "real list \<Rightarrow> nat \<Rightarrow> real list" where
  "window_means a w = map (\<lambda>k. np_mean (take w (drop (k + w) a))) [0..<length a + 1 - 3 * w]"

text \<open>
  An instance of the two scipy parameters for the closed examples. It is not scipy's
  Butterworth filter: the design accepts a cutoff strictly between zero and half the
  sampling frequency, as scipy does, and the filter keeps the mean of its input and
  nothing else.
\<close>

definition example_butter :: "nat \<Rightarrow> real \<Rightarrow> real \<Rightarrow> py_error + unit" where
  "example_butter order Wn fs = (if 0 < Wn \<and> Wn < fs / 2 then Inr () else Inl ValueError)"

definition example_sosfiltfilt :: "unit \<Rightarrow> real list \<Rightarrow> py_error + real list" where
  "example_sosfiltfilt sos x = Inr (map (\<lambda>v. np_mean x) x)"

section \<open>The class Oscillation\<close>

text \<open>
  The transformers of the module \<^verbatim>\<open>fluctus.preprocessing\<close> and sklearn's
  \<^verbatim>\<open>ColumnTransformer\<close> are not part of \<^verbatim>\<open>interfaces.py\<close>: they are parameters
  of the model, collected in one record. A field takes the arguments of the
  transformer's constructor and then the array the transformer is fitted on and applied
  to, and returns the transformed array or the exception raised; \<open>PSCScaler\<close> takes the
  array it is fitted on (the baseline rows) before the array it is applied to. An
  attribute that a method reads from the transformer afterwards (\<^verbatim>\<open>ci_low_\<close>,
  \<^verbatim>\<open>ci_high_\<close>, \<^verbatim>\<open>target_grid_\<close>, \<^verbatim>\<open>freqs_\<close>) is a field with the same
  arguments, named without the trailing underscore. The transformers are functions:
  they return new arrays and leave the array they are given as it is.
\<close>

record preprocessing =
  FeatureAverager :: "matrix \<Rightarrow> py_error + matrix"
  ColumnTransformer ::
    "(string \<times> (matrix \<Rightarrow> py_error + matrix) \<times> nat list) list \<Rightarrow> matrix \<Rightarrow> py_error + matrix"
  PSCScaler :: "matrix \<Rightarrow> matrix \<Rightarrow> py_error + matrix"
  Detrender :: "int \<Rightarrow> matrix \<Rightarrow> py_error + matrix"
  TrialAveragingTransformer :: "int \<Rightarrow> bool \<Rightarrow> matrix \<Rightarrow> py_error + matrix"
  ci_low :: "int \<Rightarrow> bool \<Rightarrow> matrix \<Rightarrow> matrix"
  ci_high :: "int \<Rightarrow> bool \<Rightarrow> matrix \<Rightarrow> matrix"
  PeriodicGridTransformer ::
    "real option \<Rightarrow> real \<Rightarrow> real \<Rightarrow> real \<Rightarrow> matrix \<Rightarrow> py_error + matrix"
  target_grid :: "real option \<Rightarrow> real \<Rightarrow> real \<Rightarrow> real \<Rightarrow> matrix \<Rightarrow> real list"
  FFTTransformer :: "real \<Rightarrow> matrix \<Rightarrow> py_error + matrix"
  freqs :: "real \<Rightarrow> matrix \<Rightarrow> real list"

text \<open>
  The dataclass: its six declared fields, then the attributes \<^verbatim>\<open>__post_init__\<close>
  adds. \<open>tdata\<close> is a matrix, the list of its rows (samples), each row the list of
  the channels' values.
\<close>

record oscillation =
  tr :: real
  period :: "real option"
  data :: matrix
  stimulus_offset :: real
  labels :: "string list option"
  discard_transients :: bool
  tdata :: matrix
  transformation_chain :: "string list"
  sampling_rate :: real
  grid :: "real list"
  offset :: real
  n_trials :: int
  emin :: "matrix option"
  emax :: "matrix option"
  ids :: "string list"

text \<open>\<^verbatim>\<open>np.arange(n) * sampling_rate\<close>.\<close>

definition arange_times :: "nat \<Rightarrow> real \<Rightarrow> real list" where
  "arange_times n rate = map (\<lambda>i. real i * rate) [0..<n]"

text \<open>
  The constructor: the generated \<^verbatim>\<open>__init__\<close> stores the six fields and calls
  \<^verbatim>\<open>__post_init__\<close>. The result is \<open>None\<close> when \<open>get_offset\<close> does not return,
  and the exception of \<open>get_ntrials\<close> when it raises.
\<close>

definition Oscillation ::
  "real \<Rightarrow> real option \<Rightarrow> matrix \<Rightarrow> real \<Rightarrow> string list option \<Rightarrow> bool \<Rightarrow>
   (py_error + oscillation) option" where
  "Oscillation tr' period' data' stimulus_offset' labels' discard_transients' =
     (case get_offset stimulus_offset' period' discard_transients' of
        None \<Rightarrow> None
      | Some offset' \<Rightarrow>
          Some (case get_ntrials offset' period' tr' (length data') of
                  Inl e \<Rightarrow> Inl e
                | Inr n_trials' \<Rightarrow>
                    Inr \<lparr>tr = tr', period = period', data = data',
                         stimulus_offset = stimulus_offset', labels = labels',
                         discard_transients = discard_transients',
                         tdata = data', transformation_chain = [],
                         sampling_rate = tr',
                         grid = arange_times (length data') tr',
                         offset = offset', n_trials = n_trials',
                         emin = None, emax = None, ids = ['''']\<rparr>))"

text \<open>
  A method mutates \<^verbatim>\<open>self\<close> and returns it, or raises. In the model a method returns
  the exception raised, if any, and the object as the call leaves it: what was
  assigned before an exception stays assigned.
\<close>

definition reset :: "oscillation \<Rightarrow> oscillation" where
  "reset self =
     self\<lparr>tdata := data self, transformation_chain := [], sampling_rate := tr self,
          grid := arange_times (length (data self)) (tr self), emin := None, emax := None\<rparr>"

definition clear_labels :: "oscillation \<Rightarrow> oscillation" where
  "clear_labels self = self\<lparr>labels := None\<rparr>"

text \<open>
  The method \<^verbatim>\<open>_transform\<close>. Its \<^verbatim>\<open>try\<close> fits a transformer that is not fitted
  yet on \<open>tdata\<close>; the transformer given here is that whole effect on an array.
\<close>

definition osc_transform ::
  "(matrix \<Rightarrow> py_error + matrix) \<Rightarrow> string \<Rightarrow> oscillation \<Rightarrow> py_error option \<times> oscillation" where
  "osc_transform transformer ident self =
     (case transformer (tdata self) of
        Inl e \<Rightarrow> (Some e, self)
      | Inr X \<Rightarrow>
          (None, self\<lparr>tdata := X,
                      transformation_chain := transformation_chain self @ [ident]\<rparr>))"

text \<open>
  \<^verbatim>\<open>average\<close>. Python iterates the set of the labels in an order it does not
  specify; the model takes the order of first occurrence.
\<close>

definition average :: "preprocessing \<Rightarrow> oscillation \<Rightarrow> py_error option \<times> oscillation" where
  "average P self =
     (case labels self of
        None \<Rightarrow> osc_transform (FeatureAverager P) ''Label Average'' (self\<lparr>ids := ['''']\<rparr>)
      | Some ls \<Rightarrow>
          let label_ids = remdups ls;
              transforms =
                map (\<lambda>l. (l, FeatureAverager P, filter (\<lambda>i. ls ! i = l) [0..<length ls]))
                    label_ids
          in osc_transform (ColumnTransformer P transforms) ''Label Average''
               (self\<lparr>ids := label_ids\<rparr>))"

text \<open>
  \<^verbatim>\<open>psc\<close>. \<open>psc_begin_vol\<close> and \<open>psc_end_vol\<close> are the two volume indices and
  \<open>psc_baseline\<close> the rows \<^verbatim>\<open>self.tdata[begin_vol:end_vol, :]\<close> the scaler is fitted on.
  The division for \<open>begin_vol\<close> stands before the \<^verbatim>\<open>try\<close>; the \<^verbatim>\<open>except\<close> clause
  catches \<^verbatim>\<open>ZeroDivisionError\<close> and \<^verbatim>\<open>OverflowError\<close> of the two lines for
  \<open>end_vol\<close> only. The sampling rate is read as a Python float, for which a division
  by zero raises (a numpy float gives an infinity or NaN instead, and the conversion to
  an integer raises then).
\<close>

definition psc_begin_vol :: "pyfloat \<Rightarrow> oscillation \<Rightarrow> py_error + int" where
  "psc_begin_vol baseline_begin self =
     (case py_truediv baseline_begin (sampling_rate self) of
        Inl e \<Rightarrow> Inl e
      | Inr q \<Rightarrow> py_int q)"

definition psc_end_vol :: "pyfloat \<Rightarrow> oscillation \<Rightarrow> py_error + int" where
  "psc_end_vol baseline_end self =
     (case (case py_truediv baseline_end (sampling_rate self) of
              Inl e \<Rightarrow> Inl e
            | Inr q \<Rightarrow> py_int q) of
        Inl e \<Rightarrow>
          if e = ZeroDivisionError \<or> e = OverflowError then Inr (int (length (tdata self)))
          else Inl e
      | Inr end_vol \<Rightarrow> Inr (min end_vol (int (length (tdata self)))))"

definition psc_baseline :: "pyfloat \<Rightarrow> pyfloat \<Rightarrow> oscillation \<Rightarrow> py_error + matrix" where
  "psc_baseline baseline_begin baseline_end self =
     (case psc_begin_vol baseline_begin self of
        Inl e \<Rightarrow> Inl e
      | Inr begin_vol \<Rightarrow>
          (case psc_end_vol baseline_end self of
             Inl e \<Rightarrow> Inl e
           | Inr end_vol \<Rightarrow> Inr (py_slice (tdata self) begin_vol end_vol)))"

definition psc ::
  "preprocessing \<Rightarrow> pyfloat \<Rightarrow> pyfloat \<Rightarrow> oscillation \<Rightarrow> py_error option \<times> oscillation" where
  "psc P baseline_begin baseline_end self =
     (if ''PSC'' \<in> set (transformation_chain self) then (None, self)
      else
        case psc_baseline baseline_begin baseline_end self of
          Inl e \<Rightarrow> (Some e, self)
        | Inr baseline \<Rightarrow> osc_transform (PSCScaler P baseline) ''PSC'' self)"

text \<open>
  \<^verbatim>\<open>detrend\<close>. The mean is taken before the transform and added to the transformed
  array after it.
\<close>

definition detrend ::
  "preprocessing \<Rightarrow> int \<Rightarrow> bool \<Rightarrow> oscillation \<Rightarrow> py_error option \<times> oscillation" where
  "detrend P order keep_mean self =
     (if ''Detrend'' \<in> set (transformation_chain self) then (None, self)
      else
        let mean = mean0 (tdata self)
        in
          case osc_transform (Detrender P order) ''Detrend'' self of
            (Some e, transformed) \<Rightarrow> (Some e, transformed)
          | (None, transformed) \<Rightarrow>
              if keep_mean
              then (case iadd_rows (tdata transformed) mean of
                      Inl e \<Rightarrow> (Some e, transformed)
                    | Inr X \<Rightarrow> (None, transformed\<lparr>tdata := X\<rparr>))
              else (None, transformed))"

text \<open>
  The last line of \<^verbatim>\<open>trial_average\<close>, \<^verbatim>\<open>interp\<close> and \<^verbatim>\<open>fft\<close>:
  \<^verbatim>\<open>self.sampling_rate = self.grid[1] - self.grid[0]\<close>, an \<^verbatim>\<open>IndexError\<close> on a grid
  of fewer than two values.
\<close>

definition update_sampling_rate :: "oscillation \<Rightarrow> py_error option \<times> oscillation" where
  "update_sampling_rate self =
     (if length (grid self) < 2 then (Some IndexError, self)
      else (None, self\<lparr>sampling_rate := grid self ! 1 - grid self ! 0\<rparr>))"

definition trial_average ::
  "preprocessing \<Rightarrow> bool \<Rightarrow> oscillation \<Rightarrow> py_error option \<times> oscillation" where
  "trial_average P bootstrap self =
     (case osc_transform (TrialAveragingTransformer P (n_trials self) bootstrap)
             ''Trial Average'' self of
        (Some e, transformed) \<Rightarrow> (Some e, transformed)
      | (None, transformed) \<Rightarrow>
          let transformed =
                (if bootstrap
                 then transformed\<lparr>emin := Some (ci_low P (n_trials self) bootstrap (tdata self)),
                                  emax := Some (ci_high P (n_trials self) bootstrap (tdata self))\<rparr>
                 else transformed);
              transformed =
                transformed\<lparr>grid := take (length (tdata transformed)) (grid transformed)\<rparr>
          in update_sampling_rate transformed)"

definition interp ::
  "preprocessing \<Rightarrow> real \<Rightarrow> oscillation \<Rightarrow> py_error option \<times> oscillation" where
  "interp P target_sampling_out self =
     (case osc_transform
             (PeriodicGridTransformer P (period self) (tr self) target_sampling_out (offset self))
             ''Crop and Interpolate'' self of
        (Some e, transformed) \<Rightarrow> (Some e, transformed)
      | (None, transformed) \<Rightarrow>
          update_sampling_rate
            (transformed\<lparr>grid :=
               map (\<lambda>g. g - offset self)
                 (target_grid P (period self) (tr self) target_sampling_out (offset self)
                    (tdata self))\<rparr>))"

definition fft :: "preprocessing \<Rightarrow> oscillation \<Rightarrow> py_error option \<times> oscillation" where
  "fft P self =
     (case osc_transform (FFTTransformer P (sampling_rate self)) ''FFT'' self of
        (Some e, transformed) \<Rightarrow> (Some e, transformed)
      | (None, transformed) \<Rightarrow>
          update_sampling_rate
            (transformed\<lparr>grid := freqs P (sampling_rate self) (tdata self)\<rparr>))"

text \<open>
  \<^verbatim>\<open>preprocess\<close>: the chained calls stop at the first exception. The model returns
  the object; the source returns \<^verbatim>\<open>self.tdata.squeeze()\<close> of it.
\<close>

definition and_then ::
  "py_error option \<times> oscillation \<Rightarrow> (oscillation \<Rightarrow> py_error option \<times> oscillation) \<Rightarrow>
   py_error option \<times> oscillation" where
  "and_then r method = (case r of (Some e, self) \<Rightarrow> (Some e, self) | (None, self) \<Rightarrow> method self)"

definition preprocess :: "preprocessing \<Rightarrow> oscillation \<Rightarrow> py_error option \<times> oscillation" where
  "preprocess P self =
     and_then (and_then (and_then (interp P (1 / 10) (reset self)) (psc P (Num 0) PosInf))
                 (average P))
       (trial_average P True)"

text \<open>
  A caller's sequence of method calls on one object. A caller may catch an exception
  and go on with the object as the failed call left it, so \<open>run\<close> keeps the object of
  every call.
\<close>

datatype method_call =
    Average
  | Psc pyfloat pyfloat
  | Detrend int bool
  | Trial_average bool
  | Interp real
  | Fft
  | Reset
  | Clear_labels
  | Preprocess

fun call :: "preprocessing \<Rightarrow> method_call \<Rightarrow> oscillation \<Rightarrow> py_error option \<times> oscillation" where
  "call P Average self = average P self"
| "call P (Psc baseline_begin baseline_end) self = psc P baseline_begin baseline_end self"
| "call P (Detrend order keep_mean) self = detrend P order keep_mean self"
| "call P (Trial_average bootstrap) self = trial_average P bootstrap self"
| "call P (Interp target_sampling_out) self = interp P target_sampling_out self"
| "call P Fft self = fft P self"
| "call P Reset self = (None, reset self)"
| "call P Clear_labels self = (None, clear_labels self)"
| "call P Preprocess self = preprocess P self"

fun run :: "preprocessing \<Rightarrow> method_call list \<Rightarrow> oscillation \<Rightarrow> oscillation" where
  "run P [] self = self"
| "run P (c # cs) self = run P cs (snd (call P c self))"


section \<open>Predicates on the object and on the parameters\<close>

text \<open>The consecutive values of a grid all differ by \<open>d\<close>.\<close>

definition evenly_spaced :: "real list \<Rightarrow> real \<Rightarrow> bool" where
  "evenly_spaced g d = list_all (\<lambda>i. g ! Suc i - g ! i = d) [0..<length g - 1]"

text \<open>
  The invariant of the data model: the grid has one value per row of \<open>tdata\<close>, and
  \<open>sampling_rate\<close> is the spacing of consecutive grid values.
\<close>

definition grid_invariant :: "oscillation \<Rightarrow> bool" where
  "grid_invariant self \<longleftrightarrow>
     length (grid self) = length (tdata self) \<and> evenly_spaced (grid self) (sampling_rate self)"

text \<open>
  No method assigns \<open>tr\<close>, \<open>period\<close>, \<open>data\<close>, \<open>stimulus_offset\<close>,
  \<open>discard_transients\<close>, \<open>offset\<close> or \<open>n_trials\<close>.
\<close>

definition same_inputs :: "oscillation \<Rightarrow> oscillation \<Rightarrow> bool" where
  "same_inputs s s' \<longleftrightarrow>
     tr s' = tr s \<and> period s' = period s \<and> data s' = data s \<and>
     stimulus_offset s' = stimulus_offset s \<and> discard_transients s' = discard_transients s \<and>
     offset s' = offset s \<and> n_trials s' = n_trials s"

text \<open>
  What the methods of \<open>oscillation\<close> rely on in the transformers, which are not among
  the sources, as their description has it: averaging, normalising and detrending keep
  the number of rows; trial folding does not add rows; the resampler returns one row
  per value of its target grid and the spectral transform one row per frequency, each
  grid evenly spaced.
\<close>

definition shape_contract :: "preprocessing \<Rightarrow> bool" where
  "shape_contract P \<longleftrightarrow>
     (\<forall>X Y. FeatureAverager P X = Inr Y \<longrightarrow> length Y = length X) \<and>
     (\<forall>ts X Y. ColumnTransformer P ts X = Inr Y \<longrightarrow> length Y = length X) \<and>
     (\<forall>B X Y. PSCScaler P B X = Inr Y \<longrightarrow> length Y = length X) \<and>
     (\<forall>k X Y. Detrender P k X = Inr Y \<longrightarrow> length Y = length X) \<and>
     (\<forall>n b X Y. TrialAveragingTransformer P n b X = Inr Y \<longrightarrow> length Y \<le> length X) \<and>
     (\<forall>p si so st X Y. PeriodicGridTransformer P p si so st X = Inr Y \<longrightarrow>
        length (target_grid P p si so st X) = length Y \<and>
        evenly_spaced (target_grid P p si so st X)
          (target_grid P p si so st X ! 1 - target_grid P p si so st X ! 0)) \<and>
     (\<forall>sr X Y. FFTTransformer P sr X = Inr Y \<longrightarrow>
        length (freqs P sr X) = length Y \<and>
        evenly_spaced (freqs P sr X) (freqs P sr X ! 1 - freqs P sr X ! 0))"

section \<open>A small instance of the transformers\<close>

text \<open>
  Modelled from the spec: the transformers of the module \<^verbatim>\<open>fluctus.preprocessing\<close>
  and sklearn's \<^verbatim>\<open>ColumnTransformer\<close>, none of which is among the sources. This
  small version follows their description and serves only to instantiate the
  parameter \<open>P\<close> in the closed examples; no theorem about the methods depends on it.
  The averager takes the mean of every row; the column transformer applies each
  transformer to its columns and puts the results side by side; the scaler maps \<open>x\<close>
  to \<open>100 * (x - m) / m\<close> for the baseline mean \<open>m\<close> of the channel; the detrender
  covers the order 0 only (it subtracts the mean of the channel) and raises otherwise;
  trial folding cuts the rows into \<open>n_trials\<close> cycles of equal length and takes their
  mean, both confidence bounds being that mean; the resampler holds the last sample at
  or before every value of a grid that starts at the offset and covers the whole
  periods left; the spectral transform is left out and raises.
\<close>

definition small_FeatureAverager :: "matrix \<Rightarrow> py_error + matrix" where
  "small_FeatureAverager X = Inr (map (\<lambda>row. [np_mean row]) X)"

fun hstack :: "(py_error + matrix) list \<Rightarrow> nat \<Rightarrow> py_error + matrix" where
  "hstack [] n = Inr (replicate n [])"
| "hstack (r # rs) n =
     (case r of
        Inl e \<Rightarrow> Inl e
      | Inr Y \<Rightarrow>
          (case hstack rs n of
             Inl e \<Rightarrow> Inl e
           | Inr Z \<Rightarrow> if length Y = n then Inr (map2 (@) Y Z) else Inl ValueError))"

definition small_ColumnTransformer ::
  "(string \<times> (matrix \<Rightarrow> py_error + matrix) \<times> nat list) list \<Rightarrow> matrix \<Rightarrow> py_error + matrix" where
  "small_ColumnTransformer ts X =
     hstack (map (\<lambda>(name, t, cols). t (map (\<lambda>row. map (\<lambda>j. row ! j) cols) X)) ts) (length X)"

definition small_PSCScaler :: "matrix \<Rightarrow> matrix \<Rightarrow> py_error + matrix" where
  "small_PSCScaler B X = Inr (map (\<lambda>row. map2 (\<lambda>x m. 100 * (x - m) / m) row (mean0 B)) X)"

definition small_Detrender :: "int \<Rightarrow> matrix \<Rightarrow> py_error + matrix" where
  "small_Detrender k X =
     (if k = 0 then Inr (map (\<lambda>row. map2 (-) row (mean0 X)) X) else Inl ValueError)"

definition small_TrialAveragingTransformer :: "int \<Rightarrow> bool \<Rightarrow> matrix \<Rightarrow> py_error + matrix" where
  "small_TrialAveragingTransformer n b X =
     (if n < 1 \<or> length X mod nat n \<noteq> 0 then Inl ValueError
      else
        let len = length X div nat n
        in Inr (map (\<lambda>i. mean0 (map (\<lambda>k. X ! (k * len + i)) [0..<nat n])) [0..<len]))"

definition small_ci :: "int \<Rightarrow> bool \<Rightarrow> matrix \<Rightarrow> matrix" where
  "small_ci n b X = (case small_TrialAveragingTransformer n b X of Inl e \<Rightarrow> [] | Inr Y \<Rightarrow> Y)"

definition small_target_grid :: "real option \<Rightarrow> real \<Rightarrow> real \<Rightarrow> real \<Rightarrow> matrix \<Rightarrow> real list" where
  "small_target_grid p sampling_in target_sampling_out start_offset X =
     (case p of
        None \<Rightarrow> []
      | Some p \<Rightarrow>
          let duration = real (length X - 1) * sampling_in;
              whole = of_int \<lfloor>(duration - start_offset) / p\<rfloor> * p
          in map (\<lambda>k. start_offset + real k * target_sampling_out)
               [0..<nat \<lceil>whole / target_sampling_out\<rceil>])"

definition small_PeriodicGridTransformer ::
  "real option \<Rightarrow> real \<Rightarrow> real \<Rightarrow> real \<Rightarrow> matrix \<Rightarrow> py_error + matrix" where
  "small_PeriodicGridTransformer p sampling_in target_sampling_out start_offset X =
     (if p = None then Inl TypeError
      else if X = [] \<or> sampling_in \<le> 0 then Inl ValueError
      else Inr (map (\<lambda>t. X ! min (length X - 1) (nat \<lfloor>t / sampling_in\<rfloor>))
                  (small_target_grid p sampling_in target_sampling_out start_offset X)))"

definition small_preprocessing :: preprocessing where
  "small_preprocessing =
     \<lparr>FeatureAverager = small_FeatureAverager,
      ColumnTransformer = small_ColumnTransformer,
      PSCScaler = small_PSCScaler,
      Detrender = small_Detrender,
      TrialAveragingTransformer = small_TrialAveragingTransformer,
      ci_low = small_ci,
      ci_high = small_ci,
      PeriodicGridTransformer = small_PeriodicGridTransformer,
      target_grid = small_target_grid,
      FFTTransformer = (\<lambda>sr X. Inl ValueError),
      freqs = (\<lambda>sr X. [])\<rparr>"

text \<open>
  The object of the closed examples: five samples of two channels at \<open>tr = 1\<close> with
  the period 2, as \<open>Oscillation 1 (Some 2) example_data 0 None False\<close> constructs it.
\<close>

definition example_data :: matrix where
  "example_data = [[1, 3], [2, 4], [3, 5], [4, 6], [5, 7]]"

definition example_oscillation :: oscillation where
  "example_oscillation =
     \<lparr>tr = 1, period = Some 2, data = example_data, stimulus_offset = 0, labels = None,
      discard_transients = False, tdata = example_data, transformation_chain = [],
      sampling_rate = 1, grid = [0, 1, 2, 3, 4], offset = 0, n_trials = 2,
      emin = None, emax = None, ids = ['''']\<rparr>"


section \<open>Properties of get_offset and get_ntrials\<close>

lemma get_offset_loop_exit:
  "so + 39999 / 1000 < x \<Longrightarrow> get_offset_loop so p x = Some x"
  by (subst get_offset_loop.simps) simp

lemma get_offset_loop_steps:
  "0 < p \<Longrightarrow> x + real k * p \<le> so + 39999 / 1000 \<Longrightarrow>
   so + 39999 / 1000 < x + real (Suc k) * p \<Longrightarrow>
   get_offset_loop so p x = Some (x + real (Suc k) * p)"
proof (induction k arbitrary: x)
  case 0
  then have "x \<le> so + 39999 / 1000" by simp
  then have "get_offset_loop so p x = get_offset_loop so p (x + p)"
    by (subst get_offset_loop.simps) simp
  also have "\<dots> = Some (x + p)"
    using 0 by (intro get_offset_loop_exit) simp
  finally show ?case by simp
next
  case (Suc k)
  have le: "x \<le> so + 39999 / 1000"
  proof -
    have "0 \<le> real (Suc k) * p" using Suc.prems(1) by simp
    then show ?thesis using Suc.prems(2) by linarith
  qed
  have "get_offset_loop so p x = get_offset_loop so p (x + p)"
    using le by (subst get_offset_loop.simps) simp
  also have "\<dots> = Some (x + p + real (Suc k) * p)"
    using Suc.prems by (intro Suc.IH) (simp_all add: algebra_simps)
  finally show ?case by (simp add: algebra_simps)
qed

text \<open>
  With a period that is not positive the loop condition stays true: no call of the loop
  that starts at or below the bound returns.
\<close>

lemma get_offset_loop_diverges:
  assumes p: "p \<le> 0" and o: "x \<le> so + 39999 / 1000"
  shows "get_offset_loop so p x = None"
proof (rule ccontr)
  assume "get_offset_loop so p x \<noteq> None"
  then obtain r where r: "get_offset_loop so p x = Some r" by auto
  have "p \<le> 0 \<longrightarrow> x \<le> so + 39999 / 1000 \<longrightarrow> False"
  proof (rule get_offset_loop.raw_induct
      [where P = "\<lambda>so p x y. p \<le> 0 \<longrightarrow> x \<le> so + 39999 / 1000 \<longrightarrow> False", OF _ r])
    fix loop :: "real \<Rightarrow> real \<Rightarrow> real \<Rightarrow> real option" and so p x y
    assume IH: "\<And>so' p' x' y'. loop so' p' x' = Some y' \<Longrightarrow>
                  p' \<le> 0 \<longrightarrow> x' \<le> so' + 39999 / 1000 \<longrightarrow> False"
      and body: "(if x \<le> so + 39999 / 1000 then loop so p (x + p) else Some x) = Some y"
    show "p \<le> 0 \<longrightarrow> x \<le> so + 39999 / 1000 \<longrightarrow> False"
    proof (intro impI)
      assume np: "p \<le> 0" and le: "x \<le> so + 39999 / 1000"
      from body le have "loop so p (x + p) = Some y" by simp
      moreover from np le have "x + p \<le> so + 39999 / 1000" by linarith
      ultimately show False using IH np by blast
    qed
  qed
  then show False using p o by simp
qed

lemma floor_steps_bounds:
  fixes p c :: real
  assumes "0 < p" and "0 \<le> c"
  shows "real (nat \<lfloor>c / p\<rfloor>) * p \<le> c" and "c < (real (nat \<lfloor>c / p\<rfloor>) + 1) * p"
proof -
  have "0 \<le> \<lfloor>c / p\<rfloor>" using assms by simp
  then have rk: "real (nat \<lfloor>c / p\<rfloor>) = of_int \<lfloor>c / p\<rfloor>" by simp
  have cancel: "c / p * p = c" using assms(1) by simp
  have "of_int \<lfloor>c / p\<rfloor> \<le> c / p" by (rule of_int_floor_le)
  then have "of_int \<lfloor>c / p\<rfloor> * p \<le> c / p * p"
    using assms(1) by (intro mult_right_mono) simp_all
  then show "real (nat \<lfloor>c / p\<rfloor>) * p \<le> c" unfolding rk cancel .
  have "c / p < of_int \<lfloor>c / p\<rfloor> + 1" by linarith
  then have "c / p * p < (of_int \<lfloor>c / p\<rfloor> + 1) * p"
    using assms(1) by (intro mult_strict_right_mono) simp_all
  then show "c < (real (nat \<lfloor>c / p\<rfloor>) + 1) * p" unfolding rk cancel .
qed

lemma get_offset_value:
  assumes "0 < p" and "so < 40"
  shows "get_offset so (Some p) True = Some (so + real (Suc (nat \<lfloor>39999 / 1000 / p\<rfloor>)) * p)"
proof -
  define k where "k = nat \<lfloor>39999 / 1000 / p\<rfloor>"
  have lo: "real k * p \<le> 39999 / 1000"
    unfolding k_def by (rule floor_steps_bounds(1) [OF assms(1)]) simp
  have hi: "39999 / 1000 < (real k + 1) * p"
    unfolding k_def by (rule floor_steps_bounds(2) [OF assms(1)]) simp
  have "get_offset_loop so p so = Some (so + real (Suc k) * p)"
  proof (rule get_offset_loop_steps [OF assms(1)])
    show "so + real k * p \<le> so + 39999 / 1000" using lo by linarith
    have "real (Suc k) * p = (real k + 1) * p" by (simp add: algebra_simps)
    then show "so + 39999 / 1000 < so + real (Suc k) * p" using hi by linarith
  qed
  then show ?thesis using assms(2) unfolding k_def get_offset_def by simp
qed

lemma last_source_grid:
  "0 < n \<Longrightarrow> last (map (\<lambda>x. real x * T) [0..<n]) = real (n - 1) * T"
  by (cases n) (simp_all add: last_map del: upt_Suc)

lemma get_ntrials_floor:
  "0 < n \<Longrightarrow> p \<noteq> 0 \<Longrightarrow>
   get_ntrials start (Some p) T n = Inr \<lfloor>(real (n - 1) * T - start) / p\<rfloor>"
  by (simp add: get_ntrials_def last_source_grid Let_def)

text \<open>
  C2, as amended. For \<open>stimulus_offset < 40\<close>, \<open>discard_transients\<close> true and a period
  \<open>p > 0\<close>, \<open>get_offset\<close> returns \<open>stimulus_offset + k * p\<close> for the first whole
  number \<open>k\<close> of periods that exceeds 39.999 seconds, \<open>k = floor (39.999 / p) + 1\<close>:
  the result lies above \<open>stimulus_offset + 39.999\<close> and at most one period above it.
  It may exceed \<open>stimulus_offset + 40\<close>.
\<close>

theorem get_offset_first_multiple_past_transients:
  assumes "0 < p" and "so < 40"
  shows "get_offset so (Some p) True = Some (so + real (nat \<lfloor>39999 / 1000 / p\<rfloor> + 1) * p)
       \<and> 1 \<le> nat \<lfloor>39999 / 1000 / p\<rfloor> + 1
       \<and> so + 39999 / 1000 < so + real (nat \<lfloor>39999 / 1000 / p\<rfloor> + 1) * p
       \<and> so + real (nat \<lfloor>39999 / 1000 / p\<rfloor> + 1) * p \<le> so + 39999 / 1000 + p"
proof -
  define k where "k = nat \<lfloor>39999 / 1000 / p\<rfloor>"
  have lo: "real k * p \<le> 39999 / 1000"
    unfolding k_def by (rule floor_steps_bounds(1) [OF assms(1)]) simp
  have hi: "39999 / 1000 < (real k + 1) * p"
    unfolding k_def by (rule floor_steps_bounds(2) [OF assms(1)]) simp
  have split: "real (k + 1) * p = real k * p + p" by (simp add: algebra_simps)
  have val: "get_offset so (Some p) True = Some (so + real (k + 1) * p)"
    using get_offset_value [OF assms] unfolding k_def by simp
  have "real (k + 1) * p = (real k + 1) * p" by (simp add: algebra_simps)
  then have above: "so + 39999 / 1000 < so + real (k + 1) * p"
    using hi by linarith
  have below: "so + real (k + 1) * p \<le> so + 39999 / 1000 + p"
    using lo unfolding split by linarith
  show ?thesis
    unfolding k_def [symmetric] using val above below by simp
qed

theorem get_offset_first_multiple_past_transients_witness:
  "(0::real) < 10 \<and> (14::real) < 40 \<and> get_offset 14 (Some 10) True = Some 54
   \<and> (14::real) + 39999 / 1000 < 54 \<and> (54::real) \<le> 14 + 39999 / 1000 + 10"
  using get_offset_first_multiple_past_transients [of 10 14] by simp

text \<open>
  The claim as it was stated fails for the period 7: from the stimulus offset 14 the
  loop stops at 56, above \<open>14 + 40\<close>.
\<close>

theorem get_offset_exceeds_forty_counterexample:
  "get_offset 14 (Some 7) True = Some 56 \<and> \<not> ((56::real) \<le> 14 + 40)"
  by (simp add: get_offset_value)

text \<open>
  C3, as amended. For a period \<open>p > 0\<close> and at least one sample, the trial count is
  the floor of \<open>((n_samples - 1) * tr - offset) / p\<close>. Where that duration is not
  negative the floor is the quotient truncated toward zero, and it is not negative;
  where the duration is negative the trial count is negative, not zero. (No condition
  on \<open>tr\<close> is needed.)
\<close>

theorem get_ntrials_is_floor_quotient:
  assumes "0 < p" and "1 \<le> n"
  shows "get_ntrials start (Some p) T n = Inr \<lfloor>(real (n - 1) * T - start) / p\<rfloor>
       \<and> (0 \<le> real (n - 1) * T - start \<longrightarrow>
            \<lfloor>(real (n - 1) * T - start) / p\<rfloor> = trunc_toward_zero ((real (n - 1) * T - start) / p)
            \<and> 0 \<le> \<lfloor>(real (n - 1) * T - start) / p\<rfloor>)
       \<and> (real (n - 1) * T - start < 0 \<longrightarrow> \<lfloor>(real (n - 1) * T - start) / p\<rfloor> < 0)"
proof (intro conjI impI)
  show "get_ntrials start (Some p) T n = Inr \<lfloor>(real (n - 1) * T - start) / p\<rfloor>"
    using assms by (intro get_ntrials_floor) simp_all
next
  assume "0 \<le> real (n - 1) * T - start"
  then have q: "0 \<le> (real (n - 1) * T - start) / p" using assms(1) by simp
  then show "\<lfloor>(real (n - 1) * T - start) / p\<rfloor> = trunc_toward_zero ((real (n - 1) * T - start) / p)"
    by (simp add: trunc_toward_zero_def)
  from q show "0 \<le> \<lfloor>(real (n - 1) * T - start) / p\<rfloor>" by simp
next
  assume "real (n - 1) * T - start < 0"
  then have "(real (n - 1) * T - start) / p < 0" using assms(1) by (simp add: divide_neg_pos)
  then show "\<lfloor>(real (n - 1) * T - start) / p\<rfloor> < 0" by (simp add: floor_less_iff)
qed

text \<open>The scenario of 600 samples at 0.1 s, period 10 s, offset 54 s: no trial.\<close>

theorem get_ntrials_is_floor_quotient_witness:
  "(0::real) < 10 \<and> (1::nat) \<le> 600 \<and> get_ntrials 54 (Some 10) (1 / 10) 600 = Inr 0"
  using get_ntrials_is_floor_quotient [of 10 600 54 "1 / 10"] by simp

text \<open>
  The claim as it was stated fails on 100 samples at 0.1 s with the offset 54 s and the
  period 10 s: the duration left is negative and the trial count is \<open>-5\<close>, neither zero
  nor the truncated quotient \<open>-4\<close>.
\<close>

theorem get_ntrials_negative_counterexample:
  "get_ntrials 54 (Some 10) (1 / 10) 100 = Inr (- 5)
   \<and> real (100 - 1) * (1 / 10) - 54 < 0
   \<and> trunc_toward_zero ((real (100 - 1) * (1 / 10) - 54) / 10) = - 4"
  by (simp add: get_ntrials_floor trunc_toward_zero_def)

text \<open>
  C9, as amended. With \<open>discard_transients\<close> true, \<open>stimulus_offset < 40\<close> and a period
  that is zero or negative, the offset computation raises no error and returns no
  value: its loop does not end. With the period absent it returns the stimulus offset
  unchanged.
\<close>

theorem get_offset_nonpositive_period_never_returns:
  "(p \<le> 0 \<and> so < 40 \<longrightarrow> get_offset so (Some p) True = None)
   \<and> get_offset so None dt = Some so"
  by (simp add: get_offset_def get_offset_loop_diverges)

theorem get_offset_nonpositive_period_never_returns_witness:
  "(- 10::real) \<le> 0 \<and> (14::real) < 40 \<and> get_offset 14 (Some (- 10)) True = None
   \<and> get_offset 14 None True = Some 14"
  using get_offset_nonpositive_period_never_returns [of "- 10" 14 True] by simp

text \<open>
  The claim as it was stated fails for the period zero: the call does not end, with an
  error or otherwise.
\<close>

theorem get_offset_zero_period_counterexample:
  "get_offset 14 (Some 0) True = None"
  by (simp add: get_offset_def get_offset_loop_diverges)


section \<open>What the methods leave unchanged\<close>

lemma same_inputs_refl: "same_inputs s s"
  by (simp add: same_inputs_def)

lemma same_inputs_trans: "same_inputs s s' \<Longrightarrow> same_inputs s' s'' \<Longrightarrow> same_inputs s s''"
  by (simp add: same_inputs_def)

lemma osc_transform_inputs: "same_inputs s (snd (osc_transform t i s))"
  by (simp add: osc_transform_def same_inputs_def split: sum.splits)

lemma update_sampling_rate_inputs: "same_inputs s (snd (update_sampling_rate s))"
  by (simp add: update_sampling_rate_def same_inputs_def)

lemma reset_inputs: "same_inputs s (reset s)"
  by (simp add: reset_def same_inputs_def)

lemma average_inputs: "same_inputs s (snd (average P s))"
  by (simp add: average_def osc_transform_def same_inputs_def Let_def
      split: option.splits sum.splits)

lemma psc_inputs: "same_inputs s (snd (psc P b e s))"
  by (simp add: psc_def osc_transform_def same_inputs_def split: sum.splits)

lemma detrend_inputs: "same_inputs s (snd (detrend P k m s))"
  by (simp add: detrend_def osc_transform_def same_inputs_def Let_def split: sum.splits)

lemma trial_average_inputs: "same_inputs s (snd (trial_average P b s))"
  by (simp add: trial_average_def osc_transform_def update_sampling_rate_def same_inputs_def
      Let_def split: sum.splits)

lemma interp_inputs: "same_inputs s (snd (interp P d s))"
  by (simp add: interp_def osc_transform_def update_sampling_rate_def same_inputs_def
      split: sum.splits)

lemma fft_inputs: "same_inputs s (snd (fft P s))"
  by (simp add: fft_def osc_transform_def update_sampling_rate_def same_inputs_def
      split: sum.splits)

lemma and_then_inputs:
  assumes "same_inputs s (snd r)" and "\<And>x. same_inputs x (snd (m x))"
  shows "same_inputs s (snd (and_then r m))"
proof (cases r)
  case (Pair err x)
  show ?thesis
  proof (cases err)
    case None
    with Pair assms(1) assms(2) [of x] show ?thesis
      by (auto simp: and_then_def intro: same_inputs_trans)
  next
    case (Some e)
    with Pair assms(1) show ?thesis by (simp add: and_then_def)
  qed
qed

lemma preprocess_inputs: "same_inputs s (snd (preprocess P s))"
  unfolding preprocess_def
  by (intro and_then_inputs same_inputs_trans [OF reset_inputs interp_inputs]
      psc_inputs average_inputs trial_average_inputs)

lemma call_inputs: "same_inputs s (snd (call P c s))"
  by (cases c)
    (simp_all add: average_inputs psc_inputs detrend_inputs trial_average_inputs interp_inputs
      fft_inputs reset_inputs preprocess_inputs, simp add: clear_labels_def same_inputs_def)

lemma run_inputs: "same_inputs s (run P cs s)"
proof (induction cs arbitrary: s)
  case Nil
  show ?case by (simp add: same_inputs_refl)
next
  case (Cons c cs)
  show ?case
    using same_inputs_trans [OF call_inputs Cons.IH] by simp
qed

lemma Oscillation_fields:
  assumes "Oscillation T p D so ls dt = Some (Inr s)"
  shows "tr s = T \<and> period s = p \<and> data s = D \<and> stimulus_offset s = so \<and>
         discard_transients s = dt \<and> tdata s = D \<and> transformation_chain s = [] \<and>
         sampling_rate s = T \<and> grid s = arange_times (length D) T \<and>
         get_offset so p dt = Some (offset s) \<and>
         get_ntrials (offset s) p T (length D) = Inr (n_trials s)"
  using assms by (auto simp: Oscillation_def split: option.splits sum.splits)


lemma example_construction:
  "Oscillation 1 (Some 2) example_data 0 None False = Some (Inr example_oscillation)"
  by (simp add: Oscillation_def get_offset_def get_ntrials_floor arange_times_def
      example_data_def example_oscillation_def upt_rec_numeral)

text \<open>
  C10. The derived fields \<open>offset\<close> and \<open>n_trials\<close> are what \<open>get_offset\<close> and
  \<open>get_ntrials\<close> gave at construction, and every sequence of method calls
  (\<open>reset\<close>, \<open>average\<close>, \<open>psc\<close>, \<open>detrend\<close>, \<open>trial_average\<close>, \<open>interp\<close>,
  \<open>fft\<close>, \<open>clear_labels\<close>, \<open>preprocess\<close>), failed calls included, leaves them as
  they are.
\<close>

theorem derived_fields_never_recomputed:
  assumes "Oscillation T p D so ls dt = Some (Inr s)"
  shows "get_offset so p dt = Some (offset s)
       \<and> get_ntrials (offset s) p T (length D) = Inr (n_trials s)
       \<and> offset (run P cs s) = offset s
       \<and> n_trials (run P cs s) = n_trials s"
  using Oscillation_fields [OF assms] run_inputs [of s P cs]
  by (simp add: same_inputs_def)

text \<open>
  On the example, \<open>interp\<close> changes the sampling rate from 1 to 1/2 and the trial count
  stays 2.
\<close>

theorem derived_fields_never_recomputed_witness:
  "Oscillation 1 (Some 2) example_data 0 None False = Some (Inr example_oscillation)
   \<and> offset (run small_preprocessing [Interp (1 / 2), Trial_average False, Reset]
               example_oscillation) = 0
   \<and> n_trials (run small_preprocessing [Interp (1 / 2), Trial_average False, Reset]
                 example_oscillation) = 2
   \<and> sampling_rate (run small_preprocessing [Interp (1 / 2)] example_oscillation) = 1 / 2"
proof -
  have "sampling_rate (run small_preprocessing [Interp (1 / 2)] example_oscillation) = 1 / 2"
    by (simp add: interp_def osc_transform_def update_sampling_rate_def small_preprocessing_def
        small_PeriodicGridTransformer_def small_target_grid_def Let_def upt_rec_numeral
        example_oscillation_def example_data_def)
  then show ?thesis
    using derived_fields_never_recomputed [OF example_construction, of small_preprocessing
        "[Interp (1 / 2), Trial_average False, Reset]"] example_construction
    by (simp add: example_oscillation_def)
qed

text \<open>
  C4. After any sequence of method calls on a constructed object, \<open>reset\<close> gives
  \<open>tdata\<close>, \<open>grid\<close> and \<open>sampling_rate\<close> their values of after the construction, and
  the transformation chain is empty. (The transformers are functions on arrays: a
  transformer that wrote into the array it was given is outside the model.)
\<close>

theorem reset_restores_construction:
  assumes "Oscillation T p D so ls dt = Some (Inr s)"
  shows "tdata (reset (run P cs s)) = tdata s
       \<and> grid (reset (run P cs s)) = grid s
       \<and> sampling_rate (reset (run P cs s)) = sampling_rate s
       \<and> transformation_chain (reset (run P cs s)) = []"
  using Oscillation_fields [OF assms] run_inputs [of s P cs]
  by (simp add: same_inputs_def reset_def)

theorem reset_restores_construction_witness:
  "Oscillation 1 (Some 2) example_data 0 None False = Some (Inr example_oscillation)
   \<and> tdata (run small_preprocessing [Interp (1 / 2)] example_oscillation) \<noteq> example_data
   \<and> tdata (reset (run small_preprocessing [Interp (1 / 2)] example_oscillation)) = example_data
   \<and> grid (reset (run small_preprocessing [Interp (1 / 2)] example_oscillation)) = [0, 1, 2, 3, 4]
   \<and> sampling_rate (reset (run small_preprocessing [Interp (1 / 2)] example_oscillation)) = 1
   \<and> transformation_chain (reset (run small_preprocessing [Interp (1 / 2)] example_oscillation)) = []"
proof -
  have "length (tdata (run small_preprocessing [Interp (1 / 2)] example_oscillation)) = 8"
    by (simp add: interp_def osc_transform_def update_sampling_rate_def small_preprocessing_def
        small_PeriodicGridTransformer_def small_target_grid_def Let_def upt_rec_numeral
        example_oscillation_def example_data_def)
  then have "tdata (run small_preprocessing [Interp (1 / 2)] example_oscillation) \<noteq> example_data"
    by (auto simp: example_data_def)
  then show ?thesis
    using reset_restores_construction [OF example_construction, of small_preprocessing
        "[Interp (1 / 2)]"] example_construction
    by (simp add: example_oscillation_def)
qed

text \<open>
  C5. A call of \<open>psc\<close> on an object whose chain holds \<^verbatim>\<open>PSC\<close> raises nothing and
  leaves the object as it is, whatever its arguments; likewise \<open>detrend\<close> and
  \<^verbatim>\<open>Detrend\<close>. So a second call after a first that returned changes nothing, and
  the object after two calls in sequence is the object after one.
\<close>

theorem psc_detrend_second_call_is_noop:
  "(''PSC'' \<in> set (transformation_chain s) \<longrightarrow> psc P b e s = (None, s))
   \<and> (''Detrend'' \<in> set (transformation_chain s) \<longrightarrow> detrend P k m s = (None, s))
   \<and> (fst (psc P b e s) = None \<longrightarrow>
        psc P b' e' (snd (psc P b e s)) = (None, snd (psc P b e s)))
   \<and> (fst (detrend P k m s) = None \<longrightarrow>
        detrend P k' m' (snd (detrend P k m s)) = (None, snd (detrend P k m s)))
   \<and> snd (psc P b e (snd (psc P b e s))) = snd (psc P b e s)
   \<and> snd (detrend P k m (snd (detrend P k m s))) = snd (detrend P k m s)"
proof (intro conjI impI)
  show "psc P b e s = (None, s)" if "''PSC'' \<in> set (transformation_chain s)"
    using that by (simp add: psc_def)
  show "detrend P k m s = (None, s)" if "''Detrend'' \<in> set (transformation_chain s)"
    using that by (simp add: detrend_def)
  show "psc P b' e' (snd (psc P b e s)) = (None, snd (psc P b e s))"
    if "fst (psc P b e s) = None"
    using that by (auto simp: psc_def osc_transform_def split: sum.splits if_splits)
  show "detrend P k' m' (snd (detrend P k m s)) = (None, snd (detrend P k m s))"
    if "fst (detrend P k m s) = None"
    using that
    by (auto simp: detrend_def osc_transform_def Let_def split: sum.splits if_splits)
  show "snd (psc P b e (snd (psc P b e s))) = snd (psc P b e s)"
    by (auto simp: psc_def osc_transform_def split: sum.splits if_splits)
  show "snd (detrend P k m (snd (detrend P k m s))) = snd (detrend P k m s)"
    by (auto simp: detrend_def osc_transform_def Let_def split: sum.splits if_splits)
qed


theorem psc_detrend_second_call_is_noop_witness:
  "fst (psc small_preprocessing (Num 0) PosInf example_oscillation) = None
   \<and> psc small_preprocessing (Num 1) (Num 2)
        (snd (psc small_preprocessing (Num 0) PosInf example_oscillation)) =
      (None, snd (psc small_preprocessing (Num 0) PosInf example_oscillation))
   \<and> fst (detrend small_preprocessing 0 True example_oscillation) = None
   \<and> detrend small_preprocessing 3 False
        (snd (detrend small_preprocessing 0 True example_oscillation)) =
      (None, snd (detrend small_preprocessing 0 True example_oscillation))"
proof -
  have p: "fst (psc small_preprocessing (Num 0) PosInf example_oscillation) = None"
    by (simp add: psc_def psc_baseline_def psc_begin_vol_def psc_end_vol_def py_truediv_def
        py_int_def trunc_toward_zero_def py_slice_def osc_transform_def small_preprocessing_def
        small_PSCScaler_def example_oscillation_def)
  have d: "fst (detrend small_preprocessing 0 True example_oscillation) = None"
    by (simp add: detrend_def osc_transform_def iadd_rows_def mean0_def Let_def
        small_preprocessing_def small_Detrender_def example_oscillation_def example_data_def)
  show ?thesis
    using p d
      psc_detrend_second_call_is_noop [of example_oscillation small_preprocessing
        "Num 0" PosInf 0 True "Num 1" "Num 2" 3 False]
    by simp
qed

section \<open>The baseline window of psc\<close>

lemma py_slice_whole: "py_slice xs 0 (int (length xs)) = xs"
  by (simp add: py_slice_def)

lemma py_slice_same: "py_slice xs v v = []"
  by (simp add: py_slice_def Let_def)

lemma psc_end_vol_infinite:
  "sampling_rate s \<noteq> 0 \<Longrightarrow> e = PosInf \<or> e = NegInf \<Longrightarrow>
   psc_end_vol e s = Inr (int (length (tdata s)))"
  by (auto simp: psc_end_vol_def py_truediv_def py_int_def)

lemma psc_end_vol_finite:
  "sampling_rate s \<noteq> 0 \<Longrightarrow>
   psc_end_vol (Num e) s =
     Inr (min (trunc_toward_zero (e / sampling_rate s)) (int (length (tdata s))))"
  by (simp add: psc_end_vol_def py_truediv_def py_int_def)

lemma psc_begin_vol_finite:
  "sampling_rate s \<noteq> 0 \<Longrightarrow>
   psc_begin_vol (Num b) s = Inr (trunc_toward_zero (b / sampling_rate s))"
  by (simp add: psc_begin_vol_def py_truediv_def py_int_def)

lemma py_slice_min_same: "py_slice xs v (min v (int (length xs))) = []"
  by (simp add: py_slice_def Let_def min_def max_def)

lemma psc_fits_on_baseline:
  "''PSC'' \<notin> set (transformation_chain s) \<Longrightarrow> psc_baseline b e s = Inr B \<Longrightarrow>
   psc P b e s = osc_transform (PSCScaler P B) ''PSC'' s"
  by (simp add: psc_def)

text \<open>
  C8, as amended. On an object with a sampling rate other than zero whose chain does
  not hold \<^verbatim>\<open>PSC\<close>, \<open>psc\<close> fits the scaler on the rows of \<open>tdata\<close> from
  \<open>begin_vol = int (baseline_begin / sampling_rate)\<close> up to
  \<open>end_vol = min (int (baseline_end / sampling_rate)) rows\<close> and applies it to
  \<open>tdata\<close>. The one fallback is for \<open>end_vol\<close>: when \<open>baseline_end\<close> is infinite
  (the default) its conversion overflows and \<open>end_vol\<close> is the number of rows, so that
  with \<open>baseline_begin = 0\<close> the baseline is the entire series. A window of zero
  length is an empty baseline: the scaler is fitted on no row at all, with no fallback.
\<close>

theorem psc_baseline_window:
  assumes "sampling_rate s \<noteq> 0"
  shows "psc_baseline (Num 0) PosInf s = Inr (tdata s)
       \<and> psc_baseline (Num b) PosInf s =
           Inr (py_slice (tdata s) (trunc_toward_zero (b / sampling_rate s))
                  (int (length (tdata s))))
       \<and> psc_baseline (Num b) (Num e) s =
           Inr (py_slice (tdata s) (trunc_toward_zero (b / sampling_rate s))
                  (min (trunc_toward_zero (e / sampling_rate s)) (int (length (tdata s)))))
       \<and> psc_baseline (Num b) (Num b) s = Inr []
       \<and> (''PSC'' \<notin> set (transformation_chain s) \<longrightarrow>
            psc P (Num 0) PosInf s = osc_transform (PSCScaler P (tdata s)) ''PSC'' s
          \<and> psc P (Num b) PosInf s =
              osc_transform
                (PSCScaler P
                   (py_slice (tdata s) (trunc_toward_zero (b / sampling_rate s))
                      (int (length (tdata s)))))
                ''PSC'' s
          \<and> psc P (Num b) NegInf s =
              osc_transform
                (PSCScaler P
                   (py_slice (tdata s) (trunc_toward_zero (b / sampling_rate s))
                      (int (length (tdata s)))))
                ''PSC'' s
          \<and> psc P (Num b) (Num e) s =
              osc_transform
                (PSCScaler P
                   (py_slice (tdata s) (trunc_toward_zero (b / sampling_rate s))
                      (min (trunc_toward_zero (e / sampling_rate s))
                         (int (length (tdata s))))))
                ''PSC'' s
          \<and> psc P (Num b) (Num b) s = osc_transform (PSCScaler P []) ''PSC'' s
          \<and> osc_transform (PSCScaler P []) ''PSC'' s =
              (case PSCScaler P [] (tdata s) of
                 Inl err \<Rightarrow> (Some err, s)
               | Inr X \<Rightarrow>
                   (None, s\<lparr>tdata := X,
                            transformation_chain := transformation_chain s @ [''PSC'']\<rparr>)))"
proof -
  have whole: "psc_baseline (Num 0) PosInf s = Inr (tdata s)"
    using assms
    by (simp add: psc_baseline_def psc_begin_vol_finite psc_end_vol_infinite
        trunc_toward_zero_def py_slice_whole)
  have to_end: "psc_baseline (Num b) inf s =
      Inr (py_slice (tdata s) (trunc_toward_zero (b / sampling_rate s)) (int (length (tdata s))))"
    if "inf = PosInf \<or> inf = NegInf" for inf
    using assms that by (simp add: psc_baseline_def psc_begin_vol_finite psc_end_vol_infinite)
  have window: "psc_baseline (Num b) (Num e) s =
      Inr (py_slice (tdata s) (trunc_toward_zero (b / sampling_rate s))
             (min (trunc_toward_zero (e / sampling_rate s)) (int (length (tdata s)))))"
    for e
    using assms by (simp add: psc_baseline_def psc_begin_vol_finite psc_end_vol_finite)
  have empty: "psc_baseline (Num b) (Num b) s = Inr []"
    unfolding window by (simp add: py_slice_min_same)
  have apply_empty: "osc_transform (PSCScaler P []) ''PSC'' s =
      (case PSCScaler P [] (tdata s) of
         Inl err \<Rightarrow> (Some err, s)
       | Inr X \<Rightarrow>
           (None, s\<lparr>tdata := X,
                    transformation_chain := transformation_chain s @ [''PSC'']\<rparr>))"
    by (simp add: osc_transform_def)
  have fits: "psc P (Num 0) PosInf s = osc_transform (PSCScaler P (tdata s)) ''PSC'' s
      \<and> psc P (Num b) PosInf s =
          osc_transform
            (PSCScaler P
               (py_slice (tdata s) (trunc_toward_zero (b / sampling_rate s))
                  (int (length (tdata s)))))
            ''PSC'' s
      \<and> psc P (Num b) NegInf s =
          osc_transform
            (PSCScaler P
               (py_slice (tdata s) (trunc_toward_zero (b / sampling_rate s))
                  (int (length (tdata s)))))
            ''PSC'' s
      \<and> psc P (Num b) (Num e) s =
          osc_transform
            (PSCScaler P
               (py_slice (tdata s) (trunc_toward_zero (b / sampling_rate s))
                  (min (trunc_toward_zero (e / sampling_rate s)) (int (length (tdata s))))))
            ''PSC'' s
      \<and> psc P (Num b) (Num b) s = osc_transform (PSCScaler P []) ''PSC'' s"
    if c: "''PSC'' \<notin> set (transformation_chain s)"
    using psc_fits_on_baseline [OF c whole] psc_fits_on_baseline [OF c to_end [of PosInf]]
      psc_fits_on_baseline [OF c to_end [of NegInf]] psc_fits_on_baseline [OF c window [of e]]
      psc_fits_on_baseline [OF c empty]
    by simp
  show ?thesis using whole to_end [of PosInf] window [of e] empty fits apply_empty by simp
qed

text \<open>
  On the example the window from 1 s to 3 s is the rows 1 and 2, and the default
  window is the entire series.
\<close>

theorem psc_baseline_window_witness:
  "sampling_rate example_oscillation \<noteq> 0
   \<and> ''PSC'' \<notin> set (transformation_chain example_oscillation)
   \<and> psc_baseline (Num 0) PosInf example_oscillation = Inr example_data
   \<and> psc_baseline (Num 1) (Num 3) example_oscillation = Inr [[2, 4], [3, 5]]
   \<and> psc small_preprocessing (Num 0) PosInf example_oscillation =
       osc_transform (small_PSCScaler example_data) ''PSC'' example_oscillation
   \<and> psc small_preprocessing (Num 1) (Num 3) example_oscillation =
       osc_transform (small_PSCScaler [[2, 4], [3, 5]]) ''PSC'' example_oscillation
   \<and> psc small_preprocessing (Num 1) (Num 1) example_oscillation =
       osc_transform (small_PSCScaler []) ''PSC'' example_oscillation"
proof -
  have sr: "sampling_rate example_oscillation \<noteq> 0"
    and td: "tdata example_oscillation = example_data"
    and ch: "''PSC'' \<notin> set (transformation_chain example_oscillation)"
    by (simp_all add: example_oscillation_def)
  have sl: "py_slice example_data 1 (min 3 (int (length example_data))) = [[2, 4], [3, 5]]"
    by (simp add: py_slice_def example_data_def)
  have sc: "PSCScaler small_preprocessing = small_PSCScaler"
    by (simp add: small_preprocessing_def)
  have tz: "trunc_toward_zero (1 / sampling_rate example_oscillation) = 1"
    "trunc_toward_zero (3 / sampling_rate example_oscillation) = 3"
    by (simp_all add: trunc_toward_zero_def example_oscillation_def)
  show ?thesis
    using psc_baseline_window [OF sr, of 1 3 small_preprocessing] sr ch
    unfolding tz sc td
    by (simp add: sl)
qed

text \<open>
  The claim as it was stated fails on the example for the zero-length window from 1 s
  to 1 s and for the window from 7 s to 9 s, which lies past the data: in both cases
  \<open>psc\<close> fits the scaler on no row, and its result is not the result of fitting on
  the entire series.
\<close>

theorem psc_degenerate_window_counterexample:
  "psc small_preprocessing (Num 1) (Num 1) example_oscillation =
     osc_transform (small_PSCScaler []) ''PSC'' example_oscillation
   \<and> psc small_preprocessing (Num 7) (Num 9) example_oscillation =
     osc_transform (small_PSCScaler []) ''PSC'' example_oscillation
   \<and> psc small_preprocessing (Num 1) (Num 1) example_oscillation \<noteq>
     osc_transform (small_PSCScaler (tdata example_oscillation)) ''PSC'' example_oscillation
   \<and> psc small_preprocessing (Num 7) (Num 9) example_oscillation \<noteq>
     osc_transform (small_PSCScaler (tdata example_oscillation)) ''PSC'' example_oscillation
   \<and> tdata example_oscillation \<noteq> []"
proof -
  have ch: "''PSC'' \<notin> set (transformation_chain example_oscillation)"
    by (simp add: example_oscillation_def)
  have b1: "psc_baseline (Num 1) (Num 1) example_oscillation = Inr []"
    and b2: "psc_baseline (Num 7) (Num 9) example_oscillation = Inr []"
    by (simp_all add: psc_baseline_def psc_begin_vol_def psc_end_vol_def py_truediv_def
        py_int_def trunc_toward_zero_def py_slice_def example_oscillation_def example_data_def)
  have sc: "PSCScaler small_preprocessing = small_PSCScaler"
    by (simp add: small_preprocessing_def)
  have p1: "psc small_preprocessing (Num 1) (Num 1) example_oscillation =
      osc_transform (small_PSCScaler []) ''PSC'' example_oscillation"
    using psc_fits_on_baseline [OF ch b1, of small_preprocessing] by (simp add: sc)
  have p2: "psc small_preprocessing (Num 7) (Num 9) example_oscillation =
      osc_transform (small_PSCScaler []) ''PSC'' example_oscillation"
    using psc_fits_on_baseline [OF ch b2, of small_preprocessing] by (simp add: sc)
  have differ: "osc_transform (small_PSCScaler []) ''PSC'' example_oscillation \<noteq>
      osc_transform (small_PSCScaler (tdata example_oscillation)) ''PSC'' example_oscillation"
  proof
    assume "osc_transform (small_PSCScaler []) ''PSC'' example_oscillation =
      osc_transform (small_PSCScaler (tdata example_oscillation)) ''PSC'' example_oscillation"
    then have "tdata (snd (osc_transform (small_PSCScaler []) ''PSC'' example_oscillation)) =
      tdata (snd (osc_transform (small_PSCScaler (tdata example_oscillation)) ''PSC''
                    example_oscillation))"
      by simp
    then show False
      by (simp add: osc_transform_def small_PSCScaler_def mean0_def np_mean_def
          example_oscillation_def example_data_def)
  qed
  have ne: "tdata example_oscillation \<noteq> []"
    by (simp add: example_oscillation_def example_data_def)
  show ?thesis using p1 p2 differ ne by simp
qed


section \<open>The invariant of grid and sampling rate\<close>

lemma evenly_spaced_iff:
  "evenly_spaced g d \<longleftrightarrow> (\<forall>i. Suc i < length g \<longrightarrow> g ! Suc i - g ! i = d)"
  by (auto simp: evenly_spaced_def list_all_iff less_diff_conv)

lemma evenly_spaced_short: "length g < 2 \<Longrightarrow> evenly_spaced g d"
  by (auto simp: evenly_spaced_iff)

lemma evenly_spaced_first: "evenly_spaced g d \<Longrightarrow> 2 \<le> length g \<Longrightarrow> g ! 1 - g ! 0 = d"
  by (auto simp: evenly_spaced_iff dest: spec [of _ 0])

lemma evenly_spaced_own:
  assumes "evenly_spaced g d"
  shows "evenly_spaced g (g ! 1 - g ! 0)"
proof (cases "2 \<le> length g")
  case True
  have "g ! 1 - g ! 0 = d" using assms True by (rule evenly_spaced_first)
  then show ?thesis using assms by (simp only:)
next
  case False
  then show ?thesis by (intro evenly_spaced_short) simp
qed

lemma evenly_spaced_take: "evenly_spaced g d \<Longrightarrow> evenly_spaced (take n g) d"
  by (simp add: evenly_spaced_iff)

lemma evenly_spaced_shift: "evenly_spaced g d \<Longrightarrow> evenly_spaced (map (\<lambda>x. x - c) g) d"
  by (simp add: evenly_spaced_iff)

lemma evenly_spaced_steps:
  "evenly_spaced (map (\<lambda>k. c + real k * d) [0..<n]) d"
proof -
  have "map (\<lambda>k. c + real k * d) [0..<n] ! Suc i - map (\<lambda>k. c + real k * d) [0..<n] ! i = d"
    if "Suc i < n" for i
  proof -
    have "i < n" using that by simp
    then show ?thesis using that by (simp add: algebra_simps)
  qed
  then show ?thesis by (simp add: evenly_spaced_iff)
qed

lemma evenly_spaced_arange: "evenly_spaced (arange_times n r) r"
  using evenly_spaced_steps [of 0 r n] by (simp add: arange_times_def)

lemma length_arange: "length (arange_times n r) = n"
  by (simp add: arange_times_def)

lemma reset_invariant: "grid_invariant (reset s)"
  by (simp add: grid_invariant_def reset_def evenly_spaced_arange length_arange)

lemma construction_invariant:
  "Oscillation T p D so ls dt = Some (Inr s) \<Longrightarrow> grid_invariant s"
  using Oscillation_fields [of T p D so ls dt s]
  by (simp add: grid_invariant_def evenly_spaced_arange length_arange)

lemma update_sampling_rate_invariant:
  assumes "length (grid s) = length (tdata s)"
    and "evenly_spaced (grid s) (grid s ! 1 - grid s ! 0)"
  shows "grid_invariant (snd (update_sampling_rate s))"
  using assms
  by (simp add: update_sampling_rate_def grid_invariant_def evenly_spaced_short)

lemma osc_transform_invariant:
  assumes "\<And>X Y. t X = Inr Y \<Longrightarrow> length Y = length X" and "grid_invariant s"
  shows "grid_invariant (snd (osc_transform t i s))"
  using assms by (auto simp: osc_transform_def grid_invariant_def split: sum.splits)

lemma average_invariant:
  assumes "shape_contract P" and "grid_invariant s"
  shows "grid_invariant (snd (average P s))"
proof (cases "labels s")
  case None
  have "grid_invariant (s\<lparr>ids := ['''']\<rparr>)" using assms(2) by (simp add: grid_invariant_def)
  then show ?thesis
    using assms(1) None
    by (auto simp: average_def shape_contract_def intro!: osc_transform_invariant)
next
  case (Some ls)
  have "grid_invariant (s\<lparr>ids := remdups ls\<rparr>)" using assms(2) by (simp add: grid_invariant_def)
  then show ?thesis
    using assms(1) Some
    by (auto simp: average_def shape_contract_def Let_def intro!: osc_transform_invariant)
qed

lemma psc_invariant:
  assumes "shape_contract P" and "grid_invariant s"
  shows "grid_invariant (snd (psc P b e s))"
  using assms
  by (auto simp: psc_def shape_contract_def split: sum.splits intro!: osc_transform_invariant)

lemma iadd_rows_length: "iadd_rows X v = Inr Y \<Longrightarrow> length Y = length X"
  by (auto simp: iadd_rows_def split: if_splits)

lemma detrend_invariant:
  assumes "shape_contract P" and "grid_invariant s"
  shows "grid_invariant (snd (detrend P k m s))"
proof -
  have rows: "\<And>X Y. Detrender P k X = Inr Y \<Longrightarrow> length Y = length X"
    using assms(1) by (auto simp: shape_contract_def)
  show ?thesis
    using assms(2) rows [of "tdata s"]
    by (auto simp: detrend_def osc_transform_def grid_invariant_def Let_def
        dest: iadd_rows_length split: sum.splits)
qed

lemma trial_average_invariant:
  assumes "shape_contract P" and "grid_invariant s"
  shows "grid_invariant (snd (trial_average P b s))"
proof (cases "TrialAveragingTransformer P (n_trials s) b (tdata s)")
  case (Inl e)
  then show ?thesis using assms(2) by (simp add: trial_average_def osc_transform_def)
next
  case (Inr Y)
  then have le: "length Y \<le> length (tdata s)"
    using assms(1) unfolding shape_contract_def by blast
  define s1 where
    "s1 = s\<lparr>tdata := Y, transformation_chain := transformation_chain s @ [''Trial Average'']\<rparr>"
  define s2 where
    "s2 = (if b then s1\<lparr>emin := Some (ci_low P (n_trials s) b (tdata s)),
                        emax := Some (ci_high P (n_trials s) b (tdata s))\<rparr> else s1)"
  define s3 where "s3 = s2\<lparr>grid := take (length (tdata s2)) (grid s2)\<rparr>"
  have res: "trial_average P b s = update_sampling_rate s3"
    using Inr by (simp add: trial_average_def osc_transform_def s1_def s2_def s3_def Let_def)
  have g: "grid s3 = take (length Y) (grid s)" and t: "tdata s3 = Y"
    by (simp_all add: s3_def s2_def s1_def)
  have len: "length (grid s3) = length (tdata s3)"
    using le assms(2) by (simp add: g t grid_invariant_def)
  have "evenly_spaced (grid s3) (sampling_rate s)"
    using assms(2) by (simp add: g grid_invariant_def evenly_spaced_take)
  then have "evenly_spaced (grid s3) (grid s3 ! 1 - grid s3 ! 0)" by (rule evenly_spaced_own)
  with len show ?thesis unfolding res by (rule update_sampling_rate_invariant)
qed

lemma interp_invariant:
  assumes "shape_contract P" and "grid_invariant s"
  shows "grid_invariant (snd (interp P d s))"
proof (cases "PeriodicGridTransformer P (period s) (tr s) d (offset s) (tdata s)")
  case (Inl e)
  then show ?thesis using assms(2) by (simp add: interp_def osc_transform_def)
next
  case (Inr Y)
  define tg where "tg = target_grid P (period s) (tr s) d (offset s) (tdata s)"
  have c: "length tg = length Y" "evenly_spaced tg (tg ! 1 - tg ! 0)"
    using assms(1) Inr unfolding shape_contract_def tg_def by blast+
  define s1 where
    "s1 = s\<lparr>tdata := Y,
            transformation_chain := transformation_chain s @ [''Crop and Interpolate''],
            grid := map (\<lambda>g. g - offset s) tg\<rparr>"
  have res: "interp P d s = update_sampling_rate s1"
    using Inr by (simp add: interp_def osc_transform_def s1_def tg_def)
  have len: "length (grid s1) = length (tdata s1)" using c(1) by (simp add: s1_def)
  have "evenly_spaced (grid s1) (tg ! 1 - tg ! 0)"
    using c(2) by (simp add: s1_def evenly_spaced_shift)
  then have "evenly_spaced (grid s1) (grid s1 ! 1 - grid s1 ! 0)" by (rule evenly_spaced_own)
  with len show ?thesis unfolding res by (rule update_sampling_rate_invariant)
qed

lemma fft_invariant:
  assumes "shape_contract P" and "grid_invariant s"
  shows "grid_invariant (snd (fft P s))"
proof (cases "FFTTransformer P (sampling_rate s) (tdata s)")
  case (Inl e)
  then show ?thesis using assms(2) by (simp add: fft_def osc_transform_def)
next
  case (Inr Y)
  define fr where "fr = freqs P (sampling_rate s) (tdata s)"
  have c: "length fr = length Y" "evenly_spaced fr (fr ! 1 - fr ! 0)"
    using assms(1) Inr unfolding shape_contract_def fr_def by blast+
  define s1 where
    "s1 = s\<lparr>tdata := Y, transformation_chain := transformation_chain s @ [''FFT''],
            grid := fr\<rparr>"
  have res: "fft P s = update_sampling_rate s1"
    using Inr by (simp add: fft_def osc_transform_def s1_def fr_def)
  have "length (grid s1) = length (tdata s1)"
    and "evenly_spaced (grid s1) (grid s1 ! 1 - grid s1 ! 0)"
    using c by (simp_all add: s1_def)
  then show ?thesis unfolding res by (rule update_sampling_rate_invariant)
qed

lemma and_then_invariant:
  assumes "grid_invariant (snd r)" and "\<And>x. grid_invariant x \<Longrightarrow> grid_invariant (snd (m x))"
  shows "grid_invariant (snd (and_then r m))"
proof (cases r)
  case (Pair err x)
  then show ?thesis using assms by (cases err) (auto simp: and_then_def)
qed

lemma preprocess_invariant:
  assumes "shape_contract P"
  shows "grid_invariant (snd (preprocess P s))"
  unfolding preprocess_def
  by (intro and_then_invariant interp_invariant psc_invariant average_invariant
      trial_average_invariant reset_invariant assms)

lemma call_invariant:
  assumes "shape_contract P" and "grid_invariant s"
  shows "grid_invariant (snd (call P c s))"
proof (cases c)
  case Clear_labels
  then show ?thesis using assms(2) by (simp add: clear_labels_def grid_invariant_def)
qed (simp_all add: assms average_invariant psc_invariant detrend_invariant
    trial_average_invariant interp_invariant fft_invariant reset_invariant preprocess_invariant)

lemma run_invariant:
  assumes "shape_contract P"
  shows "grid_invariant s \<Longrightarrow> grid_invariant (run P cs s)"
proof (induction cs arbitrary: s)
  case Nil
  then show ?case by simp
next
  case (Cons c cs)
  then show ?case using call_invariant [OF assms] by simp
qed

text \<open>The small instance of the transformers keeps the contract.\<close>

lemma hstack_length: "hstack rs n = Inr Y \<Longrightarrow> length Y = n"
proof (induction rs arbitrary: Y)
  case Nil
  then show ?case by auto
next
  case (Cons r rs)
  then show ?case by (auto split: sum.splits if_splits)
qed

lemma small_target_grid_spaced:
  "evenly_spaced (small_target_grid p si d st X)
     (small_target_grid p si d st X ! 1 - small_target_grid p si d st X ! 0)"
proof (cases p)
  case None
  then show ?thesis by (simp add: small_target_grid_def evenly_spaced_short)
next
  case (Some q)
  then obtain n where "small_target_grid p si d st X = map (\<lambda>k. st + real k * d) [0..<n]"
    by (simp add: small_target_grid_def Let_def)
  then show ?thesis by (simp only: evenly_spaced_own [OF evenly_spaced_steps])
qed

lemma small_preprocessing_contract: "shape_contract small_preprocessing"
  unfolding shape_contract_def
proof (intro conjI allI impI)
  fix ts X Y
  assume "ColumnTransformer small_preprocessing ts X = Inr Y"
  then show "length Y = length X"
    by (simp add: small_preprocessing_def small_ColumnTransformer_def hstack_length)
next
  fix n b X Y
  assume "TrialAveragingTransformer small_preprocessing n b X = Inr Y"
  then show "length Y \<le> length X"
    by (auto simp: small_preprocessing_def small_TrialAveragingTransformer_def Let_def
        split: if_splits)
next
  fix p si so st X Y
  assume "PeriodicGridTransformer small_preprocessing p si so st X = Inr Y"
  then show "length (target_grid small_preprocessing p si so st X) = length Y"
    by (auto simp: small_preprocessing_def small_PeriodicGridTransformer_def split: if_splits)
  show "evenly_spaced (target_grid small_preprocessing p si so st X)
          (target_grid small_preprocessing p si so st X ! 1 -
           target_grid small_preprocessing p si so st X ! 0)"
    using small_target_grid_spaced by (simp add: small_preprocessing_def)
qed (auto simp: small_preprocessing_def small_FeatureAverager_def small_PSCScaler_def
    small_Detrender_def split: if_splits)

text \<open>
  C1. Let the transformers keep their contract on the shapes (\<open>shape_contract\<close>).
  Then after the construction and after every method call of any sequence
  (\<open>average\<close>, \<open>psc\<close>, \<open>detrend\<close>, \<open>trial_average\<close>, \<open>interp\<close>, \<open>fft\<close>, and
  also \<open>reset\<close>, \<open>clear_labels\<close> and \<open>preprocess\<close>; calls that raise included) the
  grid has as many values as \<open>tdata\<close> has rows, and \<open>sampling_rate\<close> is the
  difference of every two consecutive grid values.
\<close>

theorem grid_invariant_after_every_call:
  assumes "Oscillation T p D so ls dt = Some (Inr s)" and "shape_contract P"
  shows "grid_invariant (run P cs s)
       \<and> length (grid (run P cs s)) = length (tdata (run P cs s))
       \<and> (\<forall>i. Suc i < length (grid (run P cs s)) \<longrightarrow>
             grid (run P cs s) ! Suc i - grid (run P cs s) ! i = sampling_rate (run P cs s))"
proof -
  have "grid_invariant (run P cs s)"
    using run_invariant [OF assms(2) construction_invariant [OF assms(1)]] .
  then show ?thesis by (simp add: grid_invariant_def evenly_spaced_iff)
qed

theorem grid_invariant_after_every_call_witness:
  "Oscillation 1 (Some 2) example_data 0 None False = Some (Inr example_oscillation)
   \<and> shape_contract small_preprocessing
   \<and> grid_invariant
       (run small_preprocessing
          [Interp 1, Psc (Num 0) PosInf, Average, Trial_average True] example_oscillation)
   \<and> grid (run small_preprocessing [Interp 1, Trial_average True] example_oscillation) = [0, 1]
   \<and> length (tdata (run small_preprocessing [Interp 1, Trial_average True]
                      example_oscillation)) = 2"
proof -
  have "grid (run small_preprocessing [Interp 1, Trial_average True] example_oscillation) = [0, 1]"
    and "length (tdata (run small_preprocessing [Interp 1, Trial_average True]
                          example_oscillation)) = 2"
    by (simp_all add: interp_def trial_average_def osc_transform_def update_sampling_rate_def
        small_preprocessing_def small_PeriodicGridTransformer_def small_target_grid_def
        small_TrialAveragingTransformer_def Let_def upt_conv_Cons
        example_oscillation_def example_data_def)
  then show ?thesis
    using grid_invariant_after_every_call [OF example_construction small_preprocessing_contract,
        of "[Interp 1, Psc (Num 0) PosInf, Average, Trial_average True]"]
      example_construction small_preprocessing_contract
    by simp
qed


section \<open>The delay estimator\<close>

lemma argmax_from_first_maximum:
  assumes "i = length pre" and "bi < i" and "bv = pre ! bi"
    and "\<forall>j<i. pre ! j \<le> bv" and "\<forall>j<bi. pre ! j < bv"
  shows "argmax_from xs i bi bv < length (pre @ xs)
       \<and> (\<forall>j<length (pre @ xs). (pre @ xs) ! j \<le> (pre @ xs) ! argmax_from xs i bi bv)
       \<and> (\<forall>j<argmax_from xs i bi bv. (pre @ xs) ! j < (pre @ xs) ! argmax_from xs i bi bv)"
  using assms
proof (induction xs arbitrary: pre i bi bv)
  case Nil
  then show ?case by simp
next
  case (Cons x xs)
  have app: "(pre @ [x]) @ xs = pre @ x # xs" by simp
  show ?case
  proof (cases "bv < x")
    case True
    have "argmax_from xs (Suc i) i x < length ((pre @ [x]) @ xs)
       \<and> (\<forall>j<length ((pre @ [x]) @ xs). ((pre @ [x]) @ xs) ! j \<le> ((pre @ [x]) @ xs) ! argmax_from xs (Suc i) i x)
       \<and> (\<forall>j<argmax_from xs (Suc i) i x. ((pre @ [x]) @ xs) ! j < ((pre @ [x]) @ xs) ! argmax_from xs (Suc i) i x)"
    proof (rule Cons.IH)
      show "Suc i = length (pre @ [x])" using Cons.prems(1) by simp
      show "i < Suc i" by simp
      show "x = (pre @ [x]) ! i" using Cons.prems(1) by simp
      show "\<forall>j<Suc i. (pre @ [x]) ! j \<le> x"
        using Cons.prems(1,4) True by (auto simp: nth_append less_Suc_eq intro: less_imp_le order.trans)
      show "\<forall>j<i. (pre @ [x]) ! j < x"
        using Cons.prems(1,4) True by (auto simp: nth_append intro: le_less_trans)
    qed
    then show ?thesis using True unfolding app by simp
  next
    case False
    have "argmax_from xs (Suc i) bi bv < length ((pre @ [x]) @ xs)
       \<and> (\<forall>j<length ((pre @ [x]) @ xs). ((pre @ [x]) @ xs) ! j \<le> ((pre @ [x]) @ xs) ! argmax_from xs (Suc i) bi bv)
       \<and> (\<forall>j<argmax_from xs (Suc i) bi bv. ((pre @ [x]) @ xs) ! j < ((pre @ [x]) @ xs) ! argmax_from xs (Suc i) bi bv)"
    proof (rule Cons.IH)
      show "Suc i = length (pre @ [x])" using Cons.prems(1) by simp
      show "bi < Suc i" using Cons.prems(2) by simp
      show "bv = (pre @ [x]) ! bi" using Cons.prems(1,2,3) by (simp add: nth_append)
      show "\<forall>j<Suc i. (pre @ [x]) ! j \<le> bv"
        using Cons.prems(1,4) False by (auto simp: nth_append less_Suc_eq)
      show "\<forall>j<bi. (pre @ [x]) ! j < bv"
        using Cons.prems(1,2,5) by (auto simp: nth_append)
    qed
    then show ?thesis using False unfolding app by simp
  qed
qed

lemma argmax_first_maximum:
  assumes "xs \<noteq> []"
  shows "argmax xs < length xs
       \<and> (\<forall>j<length xs. xs ! j \<le> xs ! argmax xs)
       \<and> (\<forall>j<argmax xs. xs ! j < xs ! argmax xs)"
proof -
  obtain x rest where xs: "xs = x # rest" using assms by (cases xs) auto
  have "argmax_from rest 1 0 x < length ([x] @ rest)
       \<and> (\<forall>j<length ([x] @ rest). ([x] @ rest) ! j \<le> ([x] @ rest) ! argmax_from rest 1 0 x)
       \<and> (\<forall>j<argmax_from rest 1 0 x. ([x] @ rest) ! j < ([x] @ rest) ! argmax_from rest 1 0 x)"
    by (rule argmax_from_first_maximum) simp_all
  then show ?thesis by (simp add: xs argmax_def)
qed


lemma shift_correlation_fun:
  "shift_correlation a b c = (\<lambda>s. correlate (transpose a) (np_roll b (- s)) ! c)"
  by (rule ext) (simp add: shift_correlation_def)

lemma find_delay_best_shift:
  assumes "arr \<noteq> []" and "hd arr \<noteq> []" and "length reference = length arr" and "1 \<le> maxshift"
  shows "find_delay arr reference maxshift T scaleref rect_data =
     Inr (map (\<lambda>c. - (real_of_int
            (best_shift (scaled_signal arr rect_data) (scaled_reference reference scaleref)
               maxshift c) * T))
          [0..<length (hd arr)])"
proof -
  have ref: "reference \<noteq> []" using assms(1,3) by auto
  have shifts: "[- maxshift..maxshift - 1] \<noteq> []" using assms(4) by simp
  show ?thesis
    using assms(1,2,3) ref shifts
    by (simp add: find_delay_def Let_def best_shift_def scaled_signal_def scaled_reference_def
        shift_correlation_fun comp_def cong: if_cong)
qed

lemma best_shift_first_maximum:
  assumes "1 \<le> maxshift"
  shows "- maxshift \<le> best_shift a b maxshift c \<and> best_shift a b maxshift c < maxshift
       \<and> (\<forall>s. - maxshift \<le> s \<and> s < maxshift \<longrightarrow>
             shift_correlation a b c s \<le> shift_correlation a b c (best_shift a b maxshift c))
       \<and> (\<forall>s. - maxshift \<le> s \<and> s < best_shift a b maxshift c \<longrightarrow>
             shift_correlation a b c s < shift_correlation a b c (best_shift a b maxshift c))"
proof -
  define shifts where "shifts = [- maxshift..maxshift - 1]"
  define col where "col = map (shift_correlation a b c) shifts"
  define r where "r = argmax col"
  have len: "length shifts = nat (2 * maxshift)" by (simp add: shifts_def)
  have nth: "shifts ! k = - maxshift + int k" if "k < length shifts" for k
    using that unfolding shifts_def by (subst nth_upto) (simp_all add: len [unfolded shifts_def])
  have ne: "col \<noteq> []" using assms by (simp add: col_def shifts_def)
  have am: "r < length col" "\<forall>j<length col. col ! j \<le> col ! r" "\<forall>j<r. col ! j < col ! r"
    using argmax_first_maximum [OF ne] by (simp_all add: r_def)
  have lc: "length col = length shifts" by (simp add: col_def)
  have best: "best_shift a b maxshift c = - maxshift + int r"
    using am(1) nth [of r] by (simp add: best_shift_def r_def col_def shifts_def)
  have colr: "col ! r = shift_correlation a b c (best_shift a b maxshift c)"
    using am(1) nth [of r] by (simp add: col_def best lc)
  have at: "col ! nat (s + maxshift) = shift_correlation a b c s \<and> nat (s + maxshift) < length col"
    if "- maxshift \<le> s" "s < maxshift" for s
  proof -
    have k: "nat (s + maxshift) < length shifts" using that by (simp add: len)
    then have "shifts ! nat (s + maxshift) = s" using that by (simp add: nth)
    then show ?thesis using k by (simp add: col_def)
  qed
  have range: "- maxshift \<le> best_shift a b maxshift c \<and> best_shift a b maxshift c < maxshift"
    using am(1) by (simp add: best lc len)
  have upper: "shift_correlation a b c s \<le> shift_correlation a b c (best_shift a b maxshift c)"
    if "- maxshift \<le> s" "s < maxshift" for s
    using at [OF that] am(2) colr by metis
  have strict: "shift_correlation a b c s < shift_correlation a b c (best_shift a b maxshift c)"
    if "- maxshift \<le> s" "s < best_shift a b maxshift c" for s
  proof -
    have sm: "s < maxshift" using that(2) range by simp
    have "nat (s + maxshift) < r" using that by (simp add: best)
    then have "col ! nat (s + maxshift) < col ! r" using am(3) by simp
    then show ?thesis using at [OF that(1) sm] colr by simp
  qed
  show ?thesis using range upper strict by blast
qed


text \<open>
  C6. For a signal matrix with at least one sample and one channel, a reference trace
  with one value per sample and \<open>maxshift \<ge> 1\<close> (any \<open>tr\<close>), \<open>find_delay\<close> returns
  for every channel \<open>c\<close> the value \<open>- (s * tr)\<close>, where \<open>s\<close> is an integer shift in
  \<open>[- maxshift, maxshift)\<close> whose correlation (of the standardised, optionally
  rectified channel with the optionally standardised reference rolled by \<open>- s\<close>) is
  greatest among all shifts of that interval, and strictly greater than that of every
  smaller shift of the interval: the first maximum in the ascending order of shifts.
\<close>

theorem find_delay_returns_first_best_shift:
  assumes "arr \<noteq> []" and "hd arr \<noteq> []" and "length reference = length arr"
    and "1 \<le> maxshift"
  shows "find_delay arr reference maxshift T scaleref rect_data =
           Inr (map (\<lambda>c. - (real_of_int
                  (best_shift (scaled_signal arr rect_data)
                     (scaled_reference reference scaleref) maxshift c) * T))
                [0..<length (hd arr)])
       \<and> (\<forall>c. - maxshift \<le> best_shift (scaled_signal arr rect_data)
                               (scaled_reference reference scaleref) maxshift c
             \<and> best_shift (scaled_signal arr rect_data)
                   (scaled_reference reference scaleref) maxshift c < maxshift
             \<and> (\<forall>s. - maxshift \<le> s \<and> s < maxshift \<longrightarrow>
                   shift_correlation (scaled_signal arr rect_data)
                       (scaled_reference reference scaleref) c s
                   \<le> shift_correlation (scaled_signal arr rect_data)
                       (scaled_reference reference scaleref) c
                       (best_shift (scaled_signal arr rect_data)
                          (scaled_reference reference scaleref) maxshift c))
             \<and> (\<forall>s. - maxshift \<le> s
                     \<and> s < best_shift (scaled_signal arr rect_data)
                               (scaled_reference reference scaleref) maxshift c \<longrightarrow>
                   shift_correlation (scaled_signal arr rect_data)
                       (scaled_reference reference scaleref) c s
                   < shift_correlation (scaled_signal arr rect_data)
                       (scaled_reference reference scaleref) c
                       (best_shift (scaled_signal arr rect_data)
                          (scaled_reference reference scaleref) maxshift c)))"
  using find_delay_best_shift [OF assms] best_shift_first_maximum [OF assms(4)]
  by blast

lemma sqrt_16: "sqrt 16 = 4"
  by (rule real_sqrt_unique) simp_all

text \<open>
  Two channels of a square wave over four samples at \<open>tr = 0.1\<close>: the first channel is
  the reference one sample later, the second is the reference itself.
\<close>

lemma find_delay_example:
  "find_delay [[1, 1], [1, - 1], [- 1, - 1], [- 1, 1]] [1, - 1, - 1, 1] 2 (1 / 10) False False =
   Inr [1 / 10, 0]"
  by (simp add: find_delay_def Let_def StandardScaler_fit_transform_def standardize_def
      np_mean_def correlate_def center_def sum_squares_def np_dot_def np_roll_def argmax_def
      sqrt_16 upto.simps upt_conv_Cons)

theorem find_delay_returns_first_best_shift_witness:
  "find_delay [[1, 1], [1, - 1], [- 1, - 1], [- 1, 1]] [1, - 1, - 1, 1] 2 (1 / 10) False False =
     Inr [1 / 10, 0]
   \<and> - 2 \<le> best_shift (scaled_signal [[1, 1], [1, - 1], [- 1, - 1], [- 1, 1]] False)
               (scaled_reference [1, - 1, - 1, 1] False) 2 0
   \<and> best_shift (scaled_signal [[1, 1], [1, - 1], [- 1, - 1], [- 1, 1]] False)
        (scaled_reference [1, - 1, - 1, 1] False) 2 0 < 2"
proof -
  have h: "[[1, 1], [1, - 1], [- 1, - 1], [- 1, 1::real]] \<noteq> []"
    "hd [[1, 1], [1, - 1], [- 1, - 1], [- 1, 1::real]] \<noteq> []"
    "length [1, - 1, - 1, 1::real] = length [[1, 1], [1, - 1], [- 1, - 1], [- 1, 1::real]]"
    "(1::int) \<le> 2"
    by simp_all
  from find_delay_returns_first_best_shift [OF h, of "1 / 10" False False]
  have "- 2 \<le> best_shift (scaled_signal [[1, 1], [1, - 1], [- 1, - 1], [- 1, 1]] False)
               (scaled_reference [1, - 1, - 1, 1] False) 2 0
      \<and> best_shift (scaled_signal [[1, 1], [1, - 1], [- 1, - 1], [- 1, 1]] False)
           (scaled_reference [1, - 1, - 1, 1] False) 2 0 < 2"
    by blast
  then show ?thesis using find_delay_example by blast
qed


section \<open>The quadrature traces\<close>

lemma length_cumsum_from: "length (cumsum_from acc xs) = length xs"
  by (induction xs arbitrary: acc) simp_all

lemma cumsum_from_nth:
  "i < length xs \<Longrightarrow> cumsum_from acc xs ! i = acc + sum_list (take (Suc i) xs)"
proof (induction xs arbitrary: acc i)
  case Nil
  then show ?case by simp
next
  case (Cons x xs)
  then show ?case by (cases i) (simp_all add: algebra_simps)
qed

lemma np_cumsum_nth: "i < length xs \<Longrightarrow> np_cumsum xs ! i = sum_list (take (Suc i) xs)"
  by (simp add: np_cumsum_def cumsum_from_nth)

lemma length_np_cumsum: "length (np_cumsum xs) = length xs"
  by (simp add: np_cumsum_def length_cumsum_from)

lemma py_slice_from_nonneg: "py_slice_from xs (int n) = drop n xs"
  by (simp add: py_slice_from_def py_slice_def Let_def min_def)

lemma py_slice_to_nonneg: "py_slice_to xs (int n) = take n xs"
  by (simp add: py_slice_to_def py_slice_def Let_def min_def)

lemma py_slice_to_neg: "1 \<le> n \<Longrightarrow> py_slice_to xs (- int n) = take (length xs - n) xs"
  by (auto simp: py_slice_to_def py_slice_def Let_def max_def nat_diff_distrib')

lemma sum_list_window:
  fixes a :: "real list"
  shows "sum_list (take (k + n) a) - sum_list (take k a) = sum_list (take n (drop k a))"
  by (simp add: take_add)

lemma moving_average_windows:
  assumes "1 \<le> n"
  shows "moving_average a (int n) =
         Inr (map (\<lambda>k. sum_list (take n (drop k a)) / real n) [0..<length a + 1 - n])"
proof -
  define ret where "ret = np_cumsum a"
  define ret' where "ret' = take n ret @ map2 (-) (drop n ret) (take (length ret - n) ret)"
  have L: "length ret = length a" by (simp add: ret_def length_np_cumsum)
  have nth_ret: "ret ! i = sum_list (take (Suc i) a)" if "i < length a" for i
    using that by (simp add: ret_def np_cumsum_nth)
  have m1: "int n - 1 = int (n - 1)" using assms by simp
  have hi: "py_slice_from ret (int n) = drop n ret" by (rule py_slice_from_nonneg)
  have lo: "py_slice_to ret (- int n) = take (length ret - n) ret"
    using assms by (rule py_slice_to_neg)
  have pre: "py_slice_to ret (int n) = take n ret" by (rule py_slice_to_nonneg)
  have same: "length (drop n ret) = length (take (length ret - n) ret)" by simp
  have "moving_average a (int n) =
        (if length (drop n ret) \<noteq> length (take (length ret - n) ret) then Inl ValueError
         else Inr (map (\<lambda>x. x / real_of_int (int n)) (py_slice_from ret' (int n - 1))))"
    unfolding moving_average_def Let_def ret_def [symmetric] hi lo pre ret'_def ..
  also have "\<dots> = Inr (map (\<lambda>x. x / real_of_int (int n)) (py_slice_from ret' (int n - 1)))"
    using same by (simp only: not_not if_True if_False simp_thms)
  also have "py_slice_from ret' (int n - 1) = drop (n - 1) ret'"
    unfolding m1 by (rule py_slice_from_nonneg)
  finally have ma: "moving_average a (int n) = Inr (map (\<lambda>x. x / real n) (drop (n - 1) ret'))"
    by simp
  have Lt: "length (take n ret) = min n (length a)" by (simp add: L min.commute)
  have Lr': "length ret' = length a"
    unfolding ret'_def by (simp add: L)
  have "drop (n - 1) ret' = map (\<lambda>k. sum_list (take n (drop k a))) [0..<length a + 1 - n]"
  proof (rule nth_equalityI)
    show "length (drop (n - 1) ret') = length (map (\<lambda>k. sum_list (take n (drop k a))) [0..<length a + 1 - n])"
      using assms by (simp add: Lr')
  next
    fix k assume "k < length (drop (n - 1) ret')"
    then have "k < length a - (n - 1)" by (simp add: Lr')
    then have k: "k + n \<le> length a" using assms by arith
    have idx: "drop (n - 1) ret' ! k = ret' ! (n - 1 + k)"
      using k assms by (intro nth_drop) (simp add: Lr')
    have tn: "length (take n ret) = n" using k by (simp add: L)
    have kk: "k < length a + 1 - n" using k assms by arith
    have rhs: "map (\<lambda>k. sum_list (take n (drop k a))) [0..<length a + 1 - n] ! k =
               sum_list (take n (drop k a))"
      using kk by (simp del: upt_Suc)
    show "drop (n - 1) ret' ! k = map (\<lambda>k. sum_list (take n (drop k a))) [0..<length a + 1 - n] ! k"
    proof (cases k)
      case 0
      have "ret' ! (n - 1) = take n ret ! (n - 1)"
        unfolding ret'_def using assms tn by (simp add: nth_append)
      also have "\<dots> = ret ! (n - 1)" using assms by simp
      also have "\<dots> = sum_list (take n a)" using k assms by (simp add: nth_ret)
      finally show ?thesis using idx 0 rhs by simp
    next
      case (Suc j)
      have pos: "n - 1 + k = n + j" using assms Suc by simp
      have j: "j < length a - n" using k Suc by arith
      have "ret' ! (n + j) = map2 (-) (drop n ret) (take (length ret - n) ret) ! j"
        unfolding ret'_def using tn by (simp add: nth_append)
      also have "\<dots> = drop n ret ! j - take (length ret - n) ret ! j"
        using j by (simp add: L)
      also have "\<dots> = ret ! (n + j) - ret ! j"
        using j by (simp add: L)
      also have "\<dots> = sum_list (take (Suc (n + j)) a) - sum_list (take (Suc j) a)"
        using j by (simp add: nth_ret)
      also have "\<dots> = sum_list (take (k + n) a) - sum_list (take k a)"
        using Suc by (simp add: add.commute)
      also have "\<dots> = sum_list (take n (drop k a))" by (rule sum_list_window)
      finally show ?thesis using idx pos rhs by simp
    qed
  qed
  then show ?thesis by (simp add: ma)
qed

lemma py_slice_trim:
  assumes "1 \<le> w"
  shows "py_slice xs (int w) (- int w) = take (length xs - 2 * w) (drop w xs)"
proof (cases "w \<le> length xs")
  case True
  have "py_slice xs (int w) (- int w) =
        take (nat (int (length xs) - int w - int w)) (drop w xs)"
    using True assms by (simp add: py_slice_def Let_def)
  also have "nat (int (length xs) - int w - int w) = length xs - 2 * w" by arith
  finally show ?thesis .
next
  case False
  then show ?thesis using assms by (simp add: py_slice_def Let_def)
qed

lemma trim_map_upt:
  "take (m - 2 * w) (drop w (map f [0..<m])) = map (\<lambda>k. f (k + w)) [0..<m - 2 * w]"
  by (rule nth_equalityI) (auto simp: add.commute)


lemma trimmed_moving_average:
  assumes "1 \<le> w"
  shows "\<exists>ms. moving_average a (int w) = Inr ms \<and> py_slice ms (int w) (- int w) = window_means a w"
proof -
  define g where "g = (\<lambda>k. sum_list (take w (drop k a)) / real w)"
  define m where "m = length a + 1 - w"
  have ma: "moving_average a (int w) = Inr (map g [0..<m])"
    unfolding g_def m_def by (rule moving_average_windows [OF assms])
  have "py_slice (map g [0..<m]) (int w) (- int w) =
        take (length (map g [0..<m]) - 2 * w) (drop w (map g [0..<m]))"
    by (rule py_slice_trim [OF assms])
  also have "\<dots> = map (\<lambda>k. g (k + w)) [0..<m - 2 * w]"
    by (simp add: trim_map_upt)
  also have "\<dots> = window_means a w"
  proof -
    have cnt: "m - 2 * w = length a + 1 - 3 * w" unfolding m_def by arith
    have "g (k + w) = np_mean (take w (drop (k + w) a))" if "k < length a + 1 - 3 * w" for k
    proof -
      have "length (take w (drop (k + w) a)) = w" using that by simp
      then show ?thesis by (simp add: g_def np_mean_def)
    qed
    then show ?thesis unfolding window_means_def cnt by simp
  qed
  finally show ?thesis using ma by blast
qed

lemma make_traces_unfold:
  assumes "T \<noteq> 0" and "1 \<le> w"
    and "butter 4 (f / 2) (1 / T) = Inr sos"
    and "sosfiltfilt sos (map2 (*) signals (sine_reference (length signals) f T off)) = Inr fs"
    and "sosfiltfilt sos (map2 (*) signals (cosine_reference (length signals) f T off)) = Inr fc"
  shows "make_traces butter sosfiltfilt signals f T off (int w) =
         Inr (window_means fs w, window_means fc w)"
proof -
  obtain ms where ms: "moving_average fs (int w) = Inr ms"
    "py_slice ms (int w) (- int w) = window_means fs w"
    using trimmed_moving_average [OF assms(2)] by blast
  obtain mc where mc: "moving_average fc (int w) = Inr mc"
    "py_slice mc (int w) (- int w) = window_means fc w"
    using trimmed_moving_average [OF assms(2)] by blast
  have s: "map (\<lambda>t. sin (2 * pi * f * (t - off + T / 2))) (map (\<lambda>x. real x * T) [0..<length signals])
           = sine_reference (length signals) f T off"
    by (simp add: sine_reference_def comp_def)
  have c: "map (\<lambda>t. cos (2 * pi * f * (t - off + T / 2))) (map (\<lambda>x. real x * T) [0..<length signals])
           = cosine_reference (length signals) f T off"
    by (simp add: cosine_reference_def comp_def)
  show ?thesis
    unfolding make_traces_def Let_def s c
    using assms(1,3,4,5) ms mc by simp
qed

text \<open>
  C7, as amended. For a sampling interval other than zero and a window of at least one
  sample, \<open>make_traces\<close> first multiplies the signal by the sine and by the cosine
  reference waveform, then passes each product through the zero-phase low-pass filter
  (designed with the order 4 and the cutoff \<open>frequency / 2\<close> at the sampling frequency
  \<open>1 / tr\<close>), then takes the moving average over \<open>window\<close> samples of each filtered
  product and drops \<open>window\<close> values at each end: a trace is the list of the means of
  the windows that start at \<open>window\<close>, \<open>window + 1\<close>, ... of the filtered product.
\<close>

theorem make_traces_multiplies_then_filters:
  assumes "T \<noteq> 0" and "1 \<le> w"
    and "butter 4 (f / 2) (1 / T) = Inr sos"
    and "sosfiltfilt sos (map2 (*) signals (sine_reference (length signals) f T off)) = Inr fs"
    and "sosfiltfilt sos (map2 (*) signals (cosine_reference (length signals) f T off)) = Inr fc"
  shows "make_traces butter sosfiltfilt signals f T off (int w) =
           Inr (window_means fs w, window_means fc w)
       \<and> length (window_means fs w) = length fs + 1 - 3 * w
       \<and> (\<forall>k<length fs + 1 - 3 * w.
             window_means fs w ! k = sum_list (take w (drop (k + w) fs)) / real w)
       \<and> (\<forall>k<length fc + 1 - 3 * w.
             window_means fc w ! k = sum_list (take w (drop (k + w) fc)) / real w)"
proof -
  have nth: "window_means a w ! k = sum_list (take w (drop (k + w) a)) / real w"
    if "k < length a + 1 - 3 * w" for a k
  proof -
    have "length (take w (drop (k + w) a)) = w" using that by simp
    then show ?thesis using that by (simp add: window_means_def np_mean_def del: upt_Suc)
  qed
  have "length (window_means fs w) = length fs + 1 - 3 * w"
    by (simp add: window_means_def)
  moreover have "make_traces butter sosfiltfilt signals f T off (int w) =
      Inr (window_means fs w, window_means fc w)"
    using assms
    by (rule make_traces_unfold
        [where butter = butter and sosfiltfilt = sosfiltfilt and sos = sos and signals = signals])
  ultimately show ?thesis using nth by simp
qed

lemma sine_reference_example: "sine_reference 4 (1 / 4) 1 (1 / 2) = [0, 1, 0, - 1]"
proof -
  have "sin (2 * pi * (1 / 4) * (real x * 1 - 1 / 2 + 1 / 2)) = sin (real x * pi / 2)" for x
    by (simp add: algebra_simps)
  moreover have "sin (3 * pi / 2) = - 1" using sin_3over2_pi by (simp add: algebra_simps)
  ultimately show ?thesis
    by (simp add: sine_reference_def upt_conv_Cons)
qed

lemma cosine_reference_example: "cosine_reference 4 (1 / 4) 1 (1 / 2) = [1, 0, - 1, 0]"
proof -
  have "cos (2 * pi * (1 / 4) * (real x * 1 - 1 / 2 + 1 / 2)) = cos (real x * pi / 2)" for x
    by (simp add: algebra_simps)
  moreover have "cos (3 * pi / 2) = 0" using cos_3over2_pi by (simp add: algebra_simps)
  ultimately show ?thesis
    by (simp add: cosine_reference_def upt_conv_Cons)
qed

text \<open>
  Four samples at \<open>tr = 1\<close>, the frequency 1/4 and the offset 1/2, so that the
  references are \<open>[0, 1, 0, - 1]\<close> and \<open>[1, 0, - 1, 0]\<close>, with the window 1 and the
  example filter.
\<close>

theorem make_traces_multiplies_then_filters_witness:
  "make_traces example_butter example_sosfiltfilt [0, 1, 0, 0] (1 / 4) 1 (1 / 2) 1 =
     Inr ([1 / 4, 1 / 4], [0, 0])"
proof -
  have b: "example_butter 4 (1 / 4 / 2) (1 / 1) = Inr ()"
    by (simp add: example_butter_def)
  have len: "length [0, 1, 0, 0 :: real] = 4" by simp
  have fs: "example_sosfiltfilt ()
              (map2 (*) [0, 1, 0, 0] (sine_reference (length [0, 1, 0, 0 :: real]) (1 / 4) 1 (1 / 2))) =
            Inr [1 / 4, 1 / 4, 1 / 4, 1 / 4]"
    unfolding len sine_reference_example by (simp add: example_sosfiltfilt_def np_mean_def)
  have fc: "example_sosfiltfilt ()
              (map2 (*) [0, 1, 0, 0] (cosine_reference (length [0, 1, 0, 0 :: real]) (1 / 4) 1 (1 / 2))) =
            Inr [0, 0, 0, 0]"
    unfolding len cosine_reference_example by (simp add: example_sosfiltfilt_def np_mean_def)
  have w: "(1::nat) \<le> 1" and t: "(1::real) \<noteq> 0" by simp_all
  have "make_traces example_butter example_sosfiltfilt [0, 1, 0, 0] (1 / 4) 1 (1 / 2) (int 1) =
        Inr (window_means [1 / 4, 1 / 4, 1 / 4, 1 / 4] 1, window_means [0, 0, 0, 0] 1)"
    using make_traces_multiplies_then_filters
      [where butter = example_butter and sosfiltfilt = example_sosfiltfilt and sos = "()"
         and signals = "[0, 1, 0, 0]", OF t w b fs fc]
    by blast
  then show ?thesis by (simp add: window_means_def np_mean_def upt_conv_Cons)
qed

text \<open>
  The claim as it was stated fails on the same input: filtering the signal first and
  multiplying afterwards gives other traces than \<open>make_traces\<close> does.
\<close>

theorem make_traces_filter_first_counterexample:
  "make_traces example_butter example_sosfiltfilt [0, 1, 0, 0] (1 / 4) 1 (1 / 2) 1 =
     Inr ([1 / 4, 1 / 4], [0, 0])
   \<and> make_traces_filter_first example_butter example_sosfiltfilt [0, 1, 0, 0] (1 / 4) 1 (1 / 2) 1 =
     Inr ([1 / 4, 0], [0, - (1 / 4)])"
proof -
  have s: "map (\<lambda>t. sin (2 * pi * (1 / 4) * (t - 1 / 2 + 1 / 2))) (map (\<lambda>x. real x * 1) [0..<4])
           = [0, 1, 0, - 1]"
    using sine_reference_example by (simp add: sine_reference_def comp_def)
  have c: "map (\<lambda>t. cos (2 * pi * (1 / 4) * (t - 1 / 2 + 1 / 2))) (map (\<lambda>x. real x * 1) [0..<4])
           = [1, 0, - 1, 0]"
    using cosine_reference_example by (simp add: cosine_reference_def comp_def)
  have ma: "moving_average xs 1 = Inr xs" for xs
  proof -
    have "map (\<lambda>k. sum_list (take 1 (drop k xs)) / real 1) [0..<length xs + 1 - 1] = xs"
      by (rule nth_equalityI) (simp_all add: Cons_nth_drop_Suc [symmetric])
    then show ?thesis using moving_average_windows [of 1 xs] by simp
  qed
  have code: "make_traces example_butter example_sosfiltfilt [0, 1, 0, 0] (1 / 4) 1 (1 / 2) 1 =
     Inr ([1 / 4, 1 / 4], [0, 0])"
    unfolding make_traces_def Let_def
    by (simp add: s [simplified] c [simplified] ma example_butter_def example_sosfiltfilt_def
        np_mean_def py_slice_def)
  have spec: "make_traces_filter_first example_butter example_sosfiltfilt [0, 1, 0, 0] (1 / 4) 1 (1 / 2) 1 =
     Inr ([1 / 4, 0], [0, - (1 / 4)])"
    unfolding make_traces_filter_first_def Let_def
    by (simp add: s [simplified] c [simplified] ma example_butter_def example_sosfiltfilt_def
        np_mean_def py_slice_def)
  show ?thesis using code spec by blast
qed


end
